theory Spec2Isabelle
  imports Complex_Main
begin

section \<open>Common data: errors and arrays\<close>

text \<open>
  Every way the modelled Python can stop without a value is a constructor here.
  \<^item> \<open>AssertionError\<close>: a bare \<^verbatim>\<open>assert\<close>; the source never gives its asserts a message.
  \<^item> \<open>CountMismatch got want\<close>: the \<^verbatim>\<open>ValueError("mismatch: got %d values to set %d parameters")\<close>
    of \<^verbatim>\<open>Base_BHN.load\<close>.
  \<^item> \<open>ShapeMismatch p v\<close>: the \<^verbatim>\<open>ValueError("mismatch: parameter has shape %r but value to set
    has shape %r")\<close> of \<^verbatim>\<open>Base_BHN.load\<close>.
  \<^item> \<open>ReshapeError n s\<close>: numpy's \<^verbatim>\<open>ValueError\<close> when an array of \<open>n\<close> elements is reshaped to a
    shape \<open>s\<close> of another size.
  \<^item> \<open>DimensionMismatch\<close>: Theano's run-time \<^verbatim>\<open>ValueError\<close> when an elementwise operation
    meets two tensors of different shapes.
  \<^item> \<open>IndexError\<close>: indexing an empty sequence with \<^verbatim>\<open>[-1]\<close>.
  \<^item> \<open>AttributeError a\<close>: reading the attribute \<open>a\<close> that was never assigned.
  \<^item> \<open>NotANumber\<close>: not an exception: the floating-point result is \<^verbatim>\<open>nan\<close> or infinite
    (a division by zero, the mean of an empty tensor, the logarithm of a non-positive
    number), so there is no real number to return.
\<close>

datatype error =
    AssertionError
  | CountMismatch nat nat
  | ShapeMismatch "nat list" "nat list"
  | ReshapeError nat "nat list"
  | DimensionMismatch
  | IndexError
  | AttributeError string
  | NotANumber

text \<open>
  A numpy array: its shape and its elements in row-major order. The element type is
  left open, since slicing, reshaping, saving and loading only move elements.
\<close>

datatype 'a ndarray = NDArray (shape: "nat list") (data: "'a list")

text \<open>
  \<^verbatim>\<open>a.reshape(ws)\<close>: numpy refuses a shape whose size is not the number of elements. The
  size is the true product of the dimensions: numpy checks it for overflow, and no array
  has \<open>2^63\<close> elements or more.
\<close>

definition reshape :: "'a list \<Rightarrow> nat list \<Rightarrow> error + 'a ndarray" where
  "reshape xs ws =
     (if length xs = prod_list ws then Inr (NDArray ws xs)
      else Inl (ReshapeError (length xs) ws))"

section \<open>toy_examples/mlp_hmc.py: \<^verbatim>\<open>unpack\<close> and \<^verbatim>\<open>get_num_params\<close>\<close>

text \<open>
  \<^verbatim>\<open>weight_shapes\<close> is an \<^verbatim>\<open>OrderedDict\<close> from variable names to shape tuples: an association
  list, in insertion order, whose keys are distinct.
\<close>

type_synonym 'k weight_shapes = "('k \<times> nat list) list"

text \<open>
  The counts are numpy's 64-bit signed integers (\<^verbatim>\<open>dtype=int\<close>): a product or a sum that
  leaves the range \<open>[-2^63, 2^63)\<close> wraps around. \<open>wrap64\<close> reduces an integer to that range.
\<close>

definition wrap64 :: "int \<Rightarrow> int" where
  "wrap64 x = (x + 2 ^ 63) mod 2 ^ 64 - 2 ^ 63"

text \<open>
  \<^verbatim>\<open>np.prod(ws, dtype=int)\<close>: the product of the dimensions in 64-bit arithmetic, 1 for the
  empty shape of a scalar. Wrapping after every multiplication gives what wrapping the
  whole product gives.
\<close>

definition np_prod :: "nat list \<Rightarrow> int" where
  "np_prod ws = wrap64 (int (prod_list ws))"

text \<open>
  \<^verbatim>\<open>sum(...)\<close> over 64-bit counts: Python adds the items one by one to the accumulator,
  and each addition wraps.
\<close>

fun py_sum :: "int \<Rightarrow> int list \<Rightarrow> int" where
  "py_sum acc [] = acc"
| "py_sum acc (x # xs) = py_sum (wrap64 (acc + x)) xs"

text \<open>
  The slice \<^verbatim>\<open>v[a:b]\<close>: a negative bound counts from the end, and both bounds are brought
  into \<open>[0, len(v)]\<close> without complaint.
\<close>

definition py_slice :: "'a list \<Rightarrow> int \<Rightarrow> int \<Rightarrow> 'a list" where
  "py_slice v a b =
     (let n = int (length v);
          lo = (if a < 0 then max (a + n) 0 else min a n);
          hi = (if b < 0 then max (b + n) 0 else min b n)
      in take (nat (hi - lo)) (drop (nat lo) v))"

text \<open>\<^verbatim>\<open>D[varname] = a\<close> on an \<^verbatim>\<open>OrderedDict\<close>: a known key keeps its place, a new one goes last.\<close>

fun od_set :: "('k \<times> 'v) list \<Rightarrow> 'k \<Rightarrow> 'v \<Rightarrow> ('k \<times> 'v) list" where
  "od_set [] k v = [(k, v)]"
| "od_set ((k', v') # D) k v = (if k' = k then (k', v) # D else (k', v') # od_set D k v)"

text \<open>
  The \<^verbatim>\<open>for varname, ws in weight_shapes.iteritems()\<close> loop of \<^verbatim>\<open>unpack\<close>, with its state
  \<open>(tt, D)\<close>. \<^verbatim>\<open>num_param\<close> and, from the first \<^verbatim>\<open>tt += num_param\<close> on, \<^verbatim>\<open>tt\<close> are 64-bit
  integers. The slice \<^verbatim>\<open>v[tt:tt + num_param]\<close> never raises; the reshape to the declared
  shape does when the slice has not as many elements as the shape asks for.
\<close>

fun unpack_loop ::
  "'a list \<Rightarrow> 'k weight_shapes \<Rightarrow> int \<Rightarrow> ('k \<times> 'a ndarray) list
     \<Rightarrow> error + (int \<times> ('k \<times> 'a ndarray) list)" where
  "unpack_loop v [] tt D = Inr (tt, D)"
| "unpack_loop v ((varname, ws) # rest) tt D =
     (let num_param = np_prod ws in
      case reshape (py_slice v tt (wrap64 (tt + num_param))) ws of
        Inl e \<Rightarrow> Inl e
      | Inr a \<Rightarrow> unpack_loop v rest (wrap64 (tt + num_param)) (od_set D varname a))"

text \<open>
  \<^verbatim>\<open>unpack(v, weight_shapes, skip_chk=True)\<close>. The first assert, \<^verbatim>\<open>np.ndim(v) == 1\<close>, holds
  by the type of \<open>v\<close>, a list.
\<close>

definition unpack ::
  "'a list \<Rightarrow> 'k weight_shapes \<Rightarrow> bool \<Rightarrow> error + ('k \<times> 'a ndarray) list" where
  "unpack v weight_shapes skip_chk =
     (case unpack_loop v weight_shapes 0 [] of
        Inl e \<Rightarrow> Inl e
      | Inr (tt, D) \<Rightarrow>
          if \<not> (skip_chk \<or> tt = int (length v)) then Inl AssertionError
          else if map fst D \<noteq> map fst weight_shapes then Inl AssertionError
          else Inr D)"

text \<open>\<^verbatim>\<open>get_num_params\<close>: \<^verbatim>\<open>sum(np.prod(ws, dtype=int) for ws in weight_shapes.itervalues())\<close>.\<close>

definition get_num_params :: "'k weight_shapes \<Rightarrow> int" where
  "get_num_params weight_shapes = py_sum 0 (map (\<lambda>(varname, ws). np_prod ws) weight_shapes)"

text \<open>
  The number of elements the shapes ask for, counted without bound. It is used to say
  when the 64-bit counts are exact, not to define the code.
\<close>

definition total_size :: "'k weight_shapes \<Rightarrow> nat" where
  "total_size weight_shapes = sum_list (map (\<lambda>(varname, ws). prod_list ws) weight_shapes)"

text \<open>
  What the loop is expected to build from offset \<open>tt\<close> on: every variable with the next
  \<open>prod_list ws\<close> elements of \<open>v\<close>, under its declared shape. It is used to state what
  \<open>unpack_loop\<close> returns, not to define it.
\<close>

fun expected_slices :: "'a list \<Rightarrow> 'k weight_shapes \<Rightarrow> nat \<Rightarrow> ('k \<times> 'a ndarray) list" where
  "expected_slices v [] tt = []"
| "expected_slices v ((varname, ws) # rest) tt =
     (varname, NDArray ws (take (prod_list ws) (drop tt v)))
       # expected_slices v rest (tt + prod_list ws)"

text \<open>Where the slice of the \<open>i\<close>-th variable starts: after the slices of the variables before it.\<close>

definition slice_start :: "'k weight_shapes \<Rightarrow> nat \<Rightarrow> nat" where
  "slice_start weight_shapes i = total_size (take i weight_shapes)"

section \<open>BHNs.py: the weight shapes of \<^verbatim>\<open>MLPWeightNorm_BHN\<close> and their slices\<close>

text \<open>
  \<^verbatim>\<open>MLPWeightNorm_BHN.__init__\<close>, lines 310 to 315. The layer widths are sizes, so they are
  natural numbers; \<^verbatim>\<open>range(1, n_hiddens)\<close> has \<open>n_hiddens - 1\<close> elements and none when
  \<open>n_hiddens\<close> is 0, which is the truncating subtraction of \<open>nat\<close>.
\<close>

definition weight_shapes :: "nat \<Rightarrow> nat \<Rightarrow> nat \<Rightarrow> nat \<Rightarrow> (nat \<times> nat) list" where
  "weight_shapes n_hiddens n_units n_inputs n_classes =
     [(n_inputs, n_units)] @ replicate (n_hiddens - 1) (n_units, n_units) @ [(n_units, n_classes)]"

definition num_params :: "(nat \<times> nat) list \<Rightarrow> nat" where
  "num_params wss = sum_list (map (\<lambda>ws. snd ws) wss)"

text \<open>
  The loop of \<^verbatim>\<open>MLPWeightNorm_BHN._get_primary_net\<close>, lines 365 to 376, with its counter \<open>t\<close>:
  for each layer the column range \<open>(t, t + num_param)\<close> of \<^verbatim>\<open>self.weights\<close> that the layer is
  given. The net is built once, on symbolic tensors; the ranges are fixed then.
\<close>

fun primary_net_slices :: "(nat \<times> nat) list \<Rightarrow> nat \<Rightarrow> (nat \<times> nat) list" where
  "primary_net_slices [] t = []"
| "primary_net_slices (ws # rest) t =
     (let num_param = snd ws
      in (t, t + num_param) # primary_net_slices rest (t + num_param))"

text \<open>
  \<^verbatim>\<open>self.weights[:, t:t+num_param].reshape((self.wd1, ws[1]))\<close> when the function runs on a
  matrix of weights with one row per weight sample (\<open>wd1\<close> rows). The slice is cut short
  without complaint where a row ends; the reshape raises when the number of elements is
  not \<open>wd1 * num_param\<close>. A matrix of \<open>wd1\<close> rows that passes is left as it is.
\<close>

definition slice_weight :: "'a list list \<Rightarrow> nat \<times> nat \<Rightarrow> error + 'a list list" where
  "slice_weight weights r =
     (let weight = map (\<lambda>row. take (snd r - fst r) (drop (fst r) row)) weights;
          wd1 = length weights
      in if sum_list (map length weight) = wd1 * (snd r - fst r) then Inr weight
         else Inl (ReshapeError (sum_list (map length weight)) [wd1, snd r - fst r]))"

text \<open>The weights of all layers, in layer order; the first reshape that raises ends the run.\<close>

fun layer_weights :: "'a list list \<Rightarrow> (nat \<times> nat) list \<Rightarrow> error + 'a list list list" where
  "layer_weights weights [] = Inr []"
| "layer_weights weights (r # rs) =
     (case slice_weight weights r of
        Inl e \<Rightarrow> Inl e
      | Inr w \<Rightarrow>
          (case layer_weights weights rs of
             Inl e \<Rightarrow> Inl e
           | Inr ws \<Rightarrow> Inr (w # ws)))"

text \<open>The columns of one slice, as a set.\<close>

definition cols :: "nat \<times> nat \<Rightarrow> nat set" where
  "cols r = {fst r ..< snd r}"


section \<open>BHNs.py: the hyper net of \<^verbatim>\<open>MLPWeightNorm_BHN\<close>\<close>

text \<open>
  The layers that \<^verbatim>\<open>_get_hyper_net\<close> stacks, each holding the layer it reads from. Their
  classes live in the repository's \<^verbatim>\<open>modules\<close> and in lasagne; only how they are stacked is
  modelled. \<^verbatim>\<open>IAFDenseLayer\<close> keeps its arguments \<^verbatim>\<open>num_units\<close>, \<^verbatim>\<open>num_hids\<close>, \<^verbatim>\<open>L\<close> and
  \<^verbatim>\<open>cond_bias\<close>.
\<close>

datatype layer =
    InputLayer "nat option list"
  | LinearFlowLayer layer
  | IndexLayer layer nat
  | CoupledDenseLayer layer nat
  | PermuteLayer layer nat
  | IAFDenseLayer layer nat nat int bool

text \<open>The noise \<^verbatim>\<open>self.ep\<close>: a normal draw, or a normal draw plus \<^verbatim>\<open>2 * binomial - 1\<close>.\<close>

datatype noise = srng_normal | srng_normal_plus_2_binomial_minus_1

record hyper_net =
  self_ep :: noise
  self_h_net :: layer
  self_logdets_layers :: "layer list"

text \<open>
  The body of \<^verbatim>\<open>for c in range(self.coupling-1)\<close>, run \<open>n\<close> times on the state
  \<open>(h_net, logdets_layers)\<close>.
\<close>

fun coupling_loop :: "nat \<Rightarrow> nat \<Rightarrow> layer \<times> layer list \<Rightarrow> layer \<times> layer list" where
  "coupling_loop 0 n_params (h_net, logdets_layers) = (h_net, logdets_layers)"
| "coupling_loop (Suc n) n_params (h_net, logdets_layers) =
     (let h_net = PermuteLayer h_net n_params;
          layer_temp = CoupledDenseLayer h_net 200;
          h_net = IndexLayer layer_temp 0;
          logdets_layers = logdets_layers @ [IndexLayer layer_temp 1]
      in coupling_loop n n_params (h_net, logdets_layers))"

text \<open>
  \<^verbatim>\<open>MLPWeightNorm_BHN._get_hyper_net\<close>. \<^verbatim>\<open>self.coupling\<close> is a Python integer (its default
  \<^verbatim>\<open>True\<close> is 1): \<^verbatim>\<open>if self.coupling\<close> asks whether it is not 0, and \<^verbatim>\<open>range(self.coupling-1)\<close>
  has \<open>nat (coupling - 1)\<close> elements. An unknown flow stops at \<^verbatim>\<open>assert False\<close>; an unknown
  noise distribution leaves \<^verbatim>\<open>self.ep\<close> unassigned, and the read of it at the end raises.
\<close>

definition get_hyper_net :: "string \<Rightarrow> int \<Rightarrow> string \<Rightarrow> nat \<Rightarrow> error + hyper_net" where
  "get_hyper_net flow coupling noise_distribution n_params =
     (let ep = (if noise_distribution = ''spherical_gaussian'' then Some srng_normal
                else if noise_distribution = ''exponential_MoG''
                     then Some srng_normal_plus_2_binomial_minus_1
                else None);
          logdets_layers = [];
          h_net = InputLayer [None, Some n_params];
          layer_temp = LinearFlowLayer h_net;
          h_net = IndexLayer layer_temp 0;
          logdets_layers = logdets_layers @ [IndexLayer layer_temp 1]
      in case (if flow = ''RealNVP'' then
                 (if coupling \<noteq> 0 then
                    (let layer_temp = CoupledDenseLayer h_net 200;
                         h_net = IndexLayer layer_temp 0;
                         logdets_layers = logdets_layers @ [IndexLayer layer_temp 1]
                     in Inr (coupling_loop (nat (coupling - 1)) n_params (h_net, logdets_layers)))
                  else Inr (h_net, logdets_layers))
               else if flow = ''IAF'' then
                 (let layer_temp = IAFDenseLayer h_net 200 1 coupling False;
                      h_net = IndexLayer layer_temp 0;
                      logdets_layers = logdets_layers @ [IndexLayer layer_temp 1]
                  in Inr (h_net, logdets_layers))
               else Inl AssertionError) of
           Inl e \<Rightarrow> Inl e
         | Inr (h_net, logdets_layers) \<Rightarrow>
             (case ep of
                None \<Rightarrow> Inl (AttributeError ''ep'')
              | Some ep \<Rightarrow> Inr \<lparr>self_ep = ep, self_h_net = h_net,
                            self_logdets_layers = logdets_layers\<rparr>))"



section \<open>BHNs.py: tensors over the reals\<close>

text \<open>
  A vector is a list of reals, a matrix a list of rows. The arithmetic is that of the
  real numbers; where the floating-point result would be \<^verbatim>\<open>nan\<close> or infinite, the
  operation returns \<open>NotANumber\<close> instead of a real.
\<close>

definition and_then :: "error + 'a \<Rightarrow> ('a \<Rightarrow> error + 'b) \<Rightarrow> error + 'b" where
  "and_then r f = (case r of Inl e \<Rightarrow> Inl e | Inr x \<Rightarrow> f x)"

text \<open>\<^verbatim>\<open>T.clip(x, min, max)\<close> on one element.\<close>

definition clip :: "real \<Rightarrow> real \<Rightarrow> real \<Rightarrow> real" where
  "clip x lo hi = (if x < lo then lo else if x > hi then hi else x)"

text \<open>\<^verbatim>\<open>x.mean()\<close> of a vector: the mean of no element is 0/0.\<close>

definition mean :: "real list \<Rightarrow> error + real" where
  "mean xs = (if xs = [] then Inl NotANumber else Inr (sum_list xs / real (length xs)))"

definition fdiv :: "real \<Rightarrow> real \<Rightarrow> error + real" where
  "fdiv a b = (if b = 0 then Inl NotANumber else Inr (a / b))"

definition log_t :: "real \<Rightarrow> error + real" where
  "log_t x = (if x \<le> 0 then Inl NotANumber else Inr (ln x))"

text \<open>An elementwise operation on two vectors.\<close>

definition elemwise :: "(real \<Rightarrow> real \<Rightarrow> real) \<Rightarrow> real list \<Rightarrow> real list \<Rightarrow> error + real list" where
  "elemwise f xs ys =
     (if length xs = length ys then Inr (map2 f xs ys) else Inl DimensionMismatch)"

definition same_shape :: "real list list \<Rightarrow> real list list \<Rightarrow> bool" where
  "same_shape a b = list_all2 (\<lambda>r s. length r = length s) a b"

text \<open>
  \<^verbatim>\<open>lasagne.objectives.categorical_crossentropy(y, t)\<close> for a matrix of targets: one value
  per row, \<open>- \<Sum>\<^sub>j t\<^sub>i\<^sub>j * ln y\<^sub>i\<^sub>j\<close>.
\<close>

definition cc :: "real list list \<Rightarrow> real list list \<Rightarrow> error + real list" where
  "cc y t =
     (if \<not> same_shape y t then Inl DimensionMismatch
      else if \<exists>r \<in> set y. \<exists>p \<in> set r. p \<le> 0 then Inl NotANumber
      else Inr (map2 (\<lambda>r s. - sum_list (map2 (\<lambda>p q. q * ln p) r s)) y t))"

text \<open>\<^verbatim>\<open>lasagne.objectives.squared_error(y, t)\<close>: elementwise, one value per entry.\<close>

definition se :: "real list list \<Rightarrow> real list list \<Rightarrow> error + real list list" where
  "se y t =
     (if \<not> same_shape y t then Inl DimensionMismatch
      else Inr (map2 (map2 (\<lambda>a b. (a - b)\<^sup>2)) y t))"

section \<open>BHNs.py: the primary net's output\<close>

datatype nonlinearity = nl_softmax | nl_linear

text \<open>
  What \<^verbatim>\<open>MLPWeightNorm_BHN._get_primary_net\<close> leaves behind: the column ranges its loop
  read, the nonlinearity it gave the last layer, and \<^verbatim>\<open>self.y\<close> as a function of the value
  of \<^verbatim>\<open>get_output(p_net, inputs)\<close> (the forward pass itself belongs to lasagne and to the
  repository's \<^verbatim>\<open>modules\<close>).
\<close>

record primary_net =
  self_slices :: "(nat \<times> nat) list"
  self_nonlinearity :: nonlinearity
  self_y :: "real list list \<Rightarrow> real list list"
  self_y_unclipped :: "real list list \<Rightarrow> real list list"

definition get_primary_net :: "string \<Rightarrow> (nat \<times> nat) list \<Rightarrow> error + primary_net" where
  "get_primary_net output_type wss =
     (let sl = primary_net_slices wss 0 in
      if output_type = ''categorical'' then
        Inr \<lparr>self_slices = sl, self_nonlinearity = nl_softmax,
             self_y = (\<lambda>out. map (map (\<lambda>p. clip p 0.001 0.999)) out),
             self_y_unclipped = (\<lambda>out. out)\<rparr>
      else if output_type = ''real'' then
        Inr \<lparr>self_slices = sl, self_nonlinearity = nl_linear,
             self_y = (\<lambda>out. out),
             self_y_unclipped = (\<lambda>out. out)\<rparr>
      else Inl AssertionError)"

section \<open>BHNs.py: the loss of \<^verbatim>\<open>Base_BHN._get_elbo\<close>\<close>

text \<open>
  The values the loss is computed from when the compiled function runs: \<^verbatim>\<open>self.logdets\<close>
  (one entry per row of noise), \<^verbatim>\<open>self.weights\<close> (one row per row of noise), \<^verbatim>\<open>self.y\<close>,
  \<^verbatim>\<open>self.target_var\<close>, \<^verbatim>\<open>self.weight\<close> and \<^verbatim>\<open>self.dataset_size\<close>.
\<close>

record elbo_inputs =
  in_logdets :: "real list"
  in_weights :: "real list list"
  in_y :: "real list list"
  in_target_var :: "real list list"
  in_weight :: real
  in_dataset_size :: real

text \<open>
  \<^verbatim>\<open>self.prior\<close> is a constructor argument (by default \<^verbatim>\<open>utils.log_normal\<close>, which is not
  among the sources): any function of a tensor, a mean and a log-variance that returns a
  tensor.
\<close>

type_synonym prior = "real list list \<Rightarrow> real \<Rightarrow> real \<Rightarrow> real list list"

text \<open>
  Lines 152 to 164: \<^verbatim>\<open>logqw = - logdets\<close>,
  \<^verbatim>\<open>logpw = prior(weights, 0., -T.log(lbda)).sum(1)\<close>, \<^verbatim>\<open>kl = (logqw - logpw).mean()\<close>.
  A \<open>lbda\<close> that is not positive has no logarithm among the reals; the model then gives
  no number, whatever the prior would do with an infinite log-variance.
\<close>

definition kl :: "prior \<Rightarrow> real \<Rightarrow> elbo_inputs \<Rightarrow> error + real" where
  "kl prior lbda inp =
     (let logqw = map uminus (in_logdets inp) in
      and_then (log_t lbda) (\<lambda>log_lbda.
        let logpw = map sum_list (prior (in_weights inp) 0 (- log_lbda)) in
        and_then (elemwise (\<lambda>a b. a - b) logqw logpw) mean))"

text \<open>Line 166: \<^verbatim>\<open>logpyx = - cc(y, target_var).mean()\<close>.\<close>

definition logpyx_categorical :: "elbo_inputs \<Rightarrow> error + real" where
  "logpyx_categorical inp =
     and_then (cc (in_y inp) (in_target_var inp)) (\<lambda>c.
       and_then (mean c) (\<lambda>m. Inr (- m)))"

text \<open>Line 168: \<^verbatim>\<open>logpyx = - se(y, target_var).mean()\<close>, the mean over all entries.\<close>

definition logpyx_real :: "elbo_inputs \<Rightarrow> error + real" where
  "logpyx_real inp =
     and_then (se (in_y inp) (in_target_var inp)) (\<lambda>c.
       and_then (mean (concat c)) (\<lambda>m. Inr (- m)))"

text \<open>Lines 171 and 172: \<^verbatim>\<open>loss = - (logpyx - weight * kl / T.cast(dataset_size, floatX))\<close>.\<close>

definition loss ::
  "(elbo_inputs \<Rightarrow> error + real) \<Rightarrow> (elbo_inputs \<Rightarrow> error + real) \<Rightarrow> elbo_inputs \<Rightarrow> error + real" where
  "loss logpyx kl_term inp =
     and_then (logpyx inp) (\<lambda>l.
       and_then (kl_term inp) (\<lambda>k.
         and_then (fdiv (in_weight inp * k) (in_dataset_size inp)) (\<lambda>q.
           Inr (- (l - q)))))"

text \<open>
  \<^verbatim>\<open>Base_BHN._get_elbo\<close>: building the loss fails at once on an unknown output type;
  otherwise it yields the loss as a function of the values of a later call.
\<close>

definition get_elbo :: "string \<Rightarrow> prior \<Rightarrow> real \<Rightarrow> error + (elbo_inputs \<Rightarrow> error + real)" where
  "get_elbo output_type prior lbda =
     (if output_type = ''categorical'' then Inr (loss logpyx_categorical (kl prior lbda))
      else if output_type = ''real'' then Inr (loss logpyx_real (kl prior lbda))
      else Inl AssertionError)"

text \<open>
  The terms of the data log-likelihood whose mean \<^verbatim>\<open>logpyx\<close> is: for a categorical output
  one per example, \<open>\<Sum>\<^sub>j t\<^sub>i\<^sub>j * ln y\<^sub>i\<^sub>j\<close>; for a real output one per entry, the negated
  squared error. This is the reading of "per-example log-likelihood" that the formulas of
  the specification are stated with.
\<close>

definition loglik :: "string \<Rightarrow> real list list \<Rightarrow> real list list \<Rightarrow> error + real list" where
  "loglik output_type yv t =
     (if output_type = ''categorical'' then and_then (cc yv t) (\<lambda>c. Inr (map uminus c))
      else and_then (se yv t) (\<lambda>c. Inr (map uminus (concat c))))"

text \<open>The per-row log-prior of the sampled weights, \<^verbatim>\<open>logpw\<close>.\<close>

definition logprior :: "prior \<Rightarrow> real \<Rightarrow> real list list \<Rightarrow> real list" where
  "logprior prior lbda w = map sum_list (prior w 0 (- ln lbda))"

text \<open>
  The formula of the specification, \<open>-(mean loglik - w * mean (logdet - logprior) / N)\<close>, on
  vectors of equal lengths, and the same formula with the sign the code gives the
  log-determinant.
\<close>

definition spec_loss :: "real list \<Rightarrow> real list \<Rightarrow> real list \<Rightarrow> real \<Rightarrow> real \<Rightarrow> real" where
  "spec_loss ll ld lp w N =
     - (sum_list ll / real (length ll)
        - w * (sum_list (map2 (\<lambda>d p. d - p) ld lp) / real (length ld)) / N)"

definition code_loss :: "real list \<Rightarrow> real list \<Rightarrow> real list \<Rightarrow> real \<Rightarrow> real \<Rightarrow> real" where
  "code_loss ll ld lp w N =
     - (sum_list ll / real (length ll)
        - w * (sum_list (map2 (\<lambda>d p. - d - p) ld lp) / real (length ld)) / N)"

section \<open>BHNs.py: gradient clipping and the update rule of \<^verbatim>\<open>Base_BHN._get_grads\<close>\<close>

definition max_norm :: real where
  "max_norm = 10"

definition clip_grad :: real where
  "clip_grad = 5"

text \<open>The L2 norm of all gradients taken together; each gradient is a flattened tensor.\<close>

definition global_norm :: "real list list \<Rightarrow> real" where
  "global_norm gs = sqrt (sum_list (map (\<lambda>g. sum_list (map (\<lambda>x. x\<^sup>2) g)) gs))"

text \<open>
  \<^verbatim>\<open>lasagne.updates.total_norm_constraint(tensor_vars, max_norm)\<close>, a function of the lasagne
  library, as lasagne defines it with its default \<^verbatim>\<open>epsilon=1e-7\<close>:
  \<^verbatim>\<open>norm = sqrt(sum(sum(t**2) for t in tensor_vars))\<close>,
  \<^verbatim>\<open>target_norm = clip(norm, 0, max_norm)\<close>, \<^verbatim>\<open>multiplier = target_norm / (epsilon + norm)\<close>,
  and every tensor is multiplied by \<^verbatim>\<open>multiplier\<close>.
\<close>

definition total_norm_constraint :: "real list list \<Rightarrow> real \<Rightarrow> real list list" where
  "total_norm_constraint tensor_vars mx =
     (let norm = global_norm tensor_vars;
          target_norm = clip norm 0 mx;
          multiplier = target_norm / (1 / 10 ^ 7 + norm)
      in map (map (\<lambda>step. step * multiplier)) tensor_vars)"

datatype update_rule = adam | nesterov_momentum | sgd

text \<open>
  \<^verbatim>\<open>self.updates\<close>: the rule chosen and the gradients handed to it, as a function of the
  value of \<^verbatim>\<open>T.grad(self.loss, self.params)\<close> (the differentiation is Theano's).
\<close>

record updates =
  rule :: update_rule
  rule_grads :: "real list list \<Rightarrow> real list list"

text \<open>
  \<^verbatim>\<open>Base_BHN._get_grads\<close>. The chain of \<^verbatim>\<open>if\<close>/\<^verbatim>\<open>elif\<close> on \<^verbatim>\<open>self.opt\<close> has no \<^verbatim>\<open>else\<close>: with an
  unknown name \<^verbatim>\<open>self.updates\<close> stays unassigned (\<open>None\<close>) and nothing is raised here.
\<close>

definition get_grads :: "string \<Rightarrow> updates option" where
  "get_grads opt =
     (let cgrads = (\<lambda>grads.
            let mgrads = total_norm_constraint grads max_norm
            in map (map (\<lambda>g. clip g (- clip_grad) clip_grad)) mgrads)
      in if opt = ''adam'' then Some \<lparr>rule = adam, rule_grads = cgrads\<rparr>
         else if opt = ''momentum'' then Some \<lparr>rule = nesterov_momentum, rule_grads = cgrads\<rparr>
         else if opt = ''sgd'' then Some \<lparr>rule = sgd, rule_grads = cgrads\<rparr>
         else None)"

text \<open>
  \<^verbatim>\<open>Base_BHN._get_train_func\<close> reads \<^verbatim>\<open>self.updates\<close>; Python raises \<^verbatim>\<open>AttributeError\<close> when
  the attribute was never assigned.
\<close>

definition get_train_func :: "updates option \<Rightarrow> error + updates" where
  "get_train_func u = (case u of None \<Rightarrow> Inl (AttributeError ''updates'') | Some us \<Rightarrow> Inr us)"

section \<open>BHNs.py: constructing an \<^verbatim>\<open>MLPWeightNorm_BHN\<close>\<close>

record config =
  flow :: string
  coupling :: int
  noise_distribution :: string
  output_type :: string
  opt :: string
  lbda :: real
  n_hiddens :: nat
  n_units :: nat
  n_inputs :: nat
  n_classes :: nat

text \<open>
  A constructed model: the hyper net, the primary net, \<^verbatim>\<open>predict_proba\<close> (which returns
  \<^verbatim>\<open>self.y\<close>), the loss of a training step and the updates. The loss of a training step
  takes the value \<open>out\<close> of the primary net's output and the other values of the call; its
  \<^verbatim>\<open>y\<close> is \<^verbatim>\<open>self.y\<close> computed from \<open>out\<close>.
\<close>

record model =
  m_hyper_net :: hyper_net
  m_primary_net :: primary_net
  predict_proba :: "real list list \<Rightarrow> real list list"
  train_loss :: "real list list \<Rightarrow> elbo_inputs \<Rightarrow> error + real"
  m_updates :: updates

text \<open>
  \<^verbatim>\<open>MLPWeightNorm_BHN.__init__\<close> followed by \<^verbatim>\<open>Base_BHN.__init__\<close>, in the order of the calls:
  \<^verbatim>\<open>_get_hyper_net\<close>, \<^verbatim>\<open>_get_primary_net\<close>, \<^verbatim>\<open>_get_elbo\<close>, \<^verbatim>\<open>_get_grads\<close>, \<^verbatim>\<open>_get_train_func\<close>,
  \<^verbatim>\<open>_get_useful_funcs\<close>. The first step that raises ends the construction. The calls into
  Theano and lasagne that compile functions and create layers are taken to succeed;
  \<^verbatim>\<open>_get_params\<close>, which only collects the parameters, and the monitored gradient norms of
  \<^verbatim>\<open>_get_elbo\<close>, which are Theano's differentiation, are left out.
\<close>

definition construct :: "prior \<Rightarrow> config \<Rightarrow> error + model" where
  "construct prior cfg =
     (let wss = weight_shapes (n_hiddens cfg) (n_units cfg) (n_inputs cfg) (n_classes cfg);
          n_params = num_params wss
      in and_then (get_hyper_net (flow cfg) (coupling cfg) (noise_distribution cfg) n_params)
           (\<lambda>hn. and_then (get_primary_net (output_type cfg) wss)
             (\<lambda>pn. and_then (get_elbo (output_type cfg) prior (lbda cfg))
               (\<lambda>ls. and_then (get_train_func (get_grads (opt cfg)))
                 (\<lambda>us. Inr \<lparr>m_hyper_net = hn, m_primary_net = pn,
                            predict_proba = self_y pn,
                            train_loss = (\<lambda>out inp. ls (inp\<lparr>in_y := self_y pn out\<rparr>)),
                            m_updates = us\<rparr>)))))"

text \<open>
  The defaults of the constructors' arguments (\<^verbatim>\<open>coupling=True\<close> is the integer 1), and a
  stand-in for the \<^verbatim>\<open>prior\<close> argument used in the examples, under which the log-density of
  a weight is the weight itself.
\<close>

definition default_config :: config where
  "default_config =
     \<lparr>flow = ''RealNVP'', coupling = 1, noise_distribution = ''spherical_gaussian'',
      output_type = ''categorical'', opt = ''adam'', lbda = 1,
      n_hiddens = 1, n_units = 200, n_inputs = 784, n_classes = 10\<rparr>"

definition identity_prior :: prior where
  "identity_prior w m lv = w"

text \<open>
  An error tells what went wrong at least when it carries a message. The bare
  \<^verbatim>\<open>assert False\<close> of the source raises an \<^verbatim>\<open>AssertionError\<close> with none.
\<close>

fun has_message :: "error \<Rightarrow> bool" where
  "has_message AssertionError = False"
| "has_message NotANumber = False"
| "has_message e = True"

section \<open>BHNs.py: \<^verbatim>\<open>Base_BHN.save\<close> and \<^verbatim>\<open>Base_BHN.load\<close>\<close>

text \<open>
  An entry of the saved list: the value of a parameter, or one of the free-form notes
  (any Python object; it has no \<^verbatim>\<open>shape\<close>). \<^verbatim>\<open>np.save\<close> and \<^verbatim>\<open>np.load\<close> are taken as a
  faithful store: loading gives back the list that was saved.
\<close>

datatype ('a, 'n) entry = Value "'a ndarray" | Note 'n

text \<open>
  \<^verbatim>\<open>save(save_path, notes=[])\<close>: the list \<^verbatim>\<open>[p.get_value() for p in self.params] + notes\<close>. The
  parameters are given by their current values.
\<close>

definition save :: "'a ndarray list \<Rightarrow> 'n list \<Rightarrow> ('a, 'n) entry list" where
  "save params notes = map Value params @ map Note notes"

text \<open>
  The loop \<^verbatim>\<open>for p, v in zip(self.params, values)\<close>: it stops where the shorter list ends,
  assigns \<open>v\<close> to \<open>p\<close> when the shapes agree and raises otherwise, leaving the parameters
  assigned so far as they are. It returns the parameters after the loop and the error,
  if any.
\<close>

fun load_loop ::
  "'a ndarray list \<Rightarrow> ('a, 'n) entry list \<Rightarrow> 'a ndarray list \<times> error option" where
  "load_loop [] vs = ([], None)"
| "load_loop (p # ps) [] = (p # ps, None)"
| "load_loop (p # ps) (Note n # vs) = (p # ps, Some (AttributeError ''shape''))"
| "load_loop (p # ps) (Value v # vs) =
     (if shape p \<noteq> shape v then (p # ps, Some (ShapeMismatch (shape p) (shape v)))
      else (let (ps', r) = load_loop ps vs in (v # ps', r)))"

text \<open>
  \<^verbatim>\<open>load(save_path)\<close>, given the list read from the file and the current parameters: it
  returns the parameters afterwards, and the notes or the error. \<^verbatim>\<open>values[-1]\<close> raises on
  an empty list.
\<close>

definition load ::
  "('a, 'n) entry list \<Rightarrow> 'a ndarray list \<Rightarrow> 'a ndarray list \<times> (error + ('a, 'n) entry)" where
  "load file params =
     (if file = [] then (params, Inl IndexError)
      else (let notes = last file;
                vals = butlast file
            in if length params \<noteq> length vals
               then (params, Inl (CountMismatch (length vals) (length params)))
               else (case load_loop params vals of
                       (ps', Some e) \<Rightarrow> (ps', Inl e)
                     | (ps', None) \<Rightarrow> (ps', Inr notes))))"

text \<open>The shape that \<^verbatim>\<open>v.shape\<close> reads from an entry, if it has one.\<close>

fun entry_shape :: "('a, 'n) entry \<Rightarrow> nat list option" where
  "entry_shape (Value v) = Some (shape v)"
| "entry_shape (Note n) = None"

section \<open>Properties of \<^verbatim>\<open>unpack\<close>\<close>

lemma od_set_fresh: "k \<notin> fst ` set D \<Longrightarrow> od_set D k a = D @ [(k, a)]"
  by (induction D) auto

text \<open>Inside the 64-bit range nothing wraps.\<close>

lemma wrap64_id: "0 \<le> x \<Longrightarrow> x < 2 ^ 63 \<Longrightarrow> wrap64 x = x"
  by (simp add: wrap64_def)

lemma wrap64_nat: "n < 2 ^ 63 \<Longrightarrow> wrap64 (int n) = int n"
proof -
  assume "n < 2 ^ 63"
  then have "int n < 2 ^ 63" by (simp add: of_nat_less_iff [of n "2 ^ 63", where ?'a = int, simplified])
  then show ?thesis by (simp add: wrap64_id)
qed

lemma np_prod_exact: "prod_list ws < 2 ^ 63 \<Longrightarrow> np_prod ws = int (prod_list ws)"
  by (simp add: np_prod_def wrap64_nat)

lemma total_size_Nil: "total_size [] = 0"
  by (simp add: total_size_def)

lemma total_size_Cons: "total_size ((k, ws) # rest) = prod_list ws + total_size rest"
  by (simp add: total_size_def)

text \<open>A slice between two offsets inside the vector is \<open>take\<close> after \<open>drop\<close>.\<close>

lemma py_slice_nat:
  "tt + n \<le> length v \<Longrightarrow> py_slice v (int tt) (int (tt + n)) = take n (drop tt v)"
  by (simp add: py_slice_def Let_def min_def)

text \<open>
  When \<open>v\<close> is long enough and the counts stay below \<open>2^63\<close>, the loop runs through,
  appends one entry per variable and advances \<open>tt\<close> by the number of elements.
\<close>

lemma unpack_loop_ok:
  "tt + total_size wss \<le> length v \<Longrightarrow> tt + total_size wss < 2 ^ 63 \<Longrightarrow>
   distinct (map fst wss) \<Longrightarrow> fst ` set wss \<inter> fst ` set D = {} \<Longrightarrow>
   unpack_loop v wss (int tt) D = Inr (int (tt + total_size wss), D @ expected_slices v wss tt)"
proof (induction wss arbitrary: tt D)
  case Nil
  then show ?case by (simp add: total_size_Nil)
next
  case (Cons p rest)
  obtain k ws where p: "p = (k, ws)" by (cases p)
  from Cons.prems(1) have len: "tt + prod_list ws + total_size rest \<le> length v"
    by (simp add: p total_size_Cons)
  from Cons.prems(2) have small: "tt + prod_list ws + total_size rest < 2 ^ 63"
    by (simp add: p total_size_Cons)
  from small have n: "np_prod ws = int (prod_list ws)"
    by (intro np_prod_exact) simp
  from small have "tt + prod_list ws < 2 ^ 63" by simp
  then have w: "wrap64 (int tt + int (prod_list ws)) = int tt + int (prod_list ws)"
    using wrap64_nat [of "tt + prod_list ws"] by simp
  from len have "tt + prod_list ws \<le> length v" by simp
  then have "py_slice v (int tt) (int (tt + prod_list ws)) = take (prod_list ws) (drop tt v)"
    by (rule py_slice_nat)
  then have sl: "py_slice v (int tt) (int tt + int (prod_list ws)) = take (prod_list ws) (drop tt v)"
    by simp
  from len have r: "reshape (take (prod_list ws) (drop tt v)) ws
                  = Inr (NDArray ws (take (prod_list ws) (drop tt v)))"
    by (simp add: reshape_def)
  from Cons.prems(4) have fresh: "k \<notin> fst ` set D" by (auto simp: p)
  let ?D = "D @ [(k, NDArray ws (take (prod_list ws) (drop tt v)))]"
  have disj: "fst ` set rest \<inter> fst ` set ?D = {}"
    using Cons.prems(3,4) by (auto simp: p)
  have "unpack_loop v rest (int (tt + prod_list ws)) ?D
          = Inr (int (tt + prod_list ws + total_size rest),
                 ?D @ expected_slices v rest (tt + prod_list ws))"
    using Cons.IH [OF len small _ disj] Cons.prems(3) by (simp add: p)
  then show ?case
    by (simp add: p n w sl r od_set_fresh [OF fresh] total_size_Cons add.assoc Let_def)
qed

text \<open>Whenever the loop runs through, \<open>tt\<close> has taken up the 64-bit sum of the counts.\<close>

lemma unpack_loop_tt:
  "unpack_loop v wss tt D = Inr (tt', D') \<Longrightarrow>
   tt' = py_sum tt (map (\<lambda>(varname, ws). np_prod ws) wss)"
proof (induction wss arbitrary: tt D)
  case Nil
  then show ?case by simp
next
  case (Cons p rest)
  obtain k ws where p: "p = (k, ws)" by (cases p)
  from Cons.prems obtain a where
    "unpack_loop v rest (wrap64 (tt + np_prod ws)) (od_set D k a) = Inr (tt', D')"
    by (auto simp: p Let_def split: sum.splits)
  from Cons.IH [OF this] show ?case
    by (simp add: p)
qed

text \<open>Below \<open>2^63\<close> the 64-bit sum of the counts is the number of elements.\<close>

lemma py_sum_exact:
  "a + total_size wss < 2 ^ 63 \<Longrightarrow>
   py_sum (int a) (map (\<lambda>(varname, ws). np_prod ws) wss) = int (a + total_size wss)"
proof (induction wss arbitrary: a)
  case Nil
  then show ?case by (simp add: total_size_Nil)
next
  case (Cons p rest)
  obtain k ws where p: "p = (k, ws)" by (cases p)
  from Cons.prems have small: "a + prod_list ws + total_size rest < 2 ^ 63"
    by (simp add: p total_size_Cons)
  then have n: "np_prod ws = int (prod_list ws)"
    by (intro np_prod_exact) simp
  from small have "a + prod_list ws < 2 ^ 63" by simp
  then have w: "wrap64 (int a + int (prod_list ws)) = int a + int (prod_list ws)"
    using wrap64_nat [of "a + prod_list ws"] by simp
  from Cons.IH [OF small] show ?case
    by (simp add: p n w total_size_Cons add.assoc)
qed

lemma get_num_params_exact:
  "total_size wss < 2 ^ 63 \<Longrightarrow> get_num_params wss = int (total_size wss)"
  using py_sum_exact [of 0 wss] by (simp add: get_num_params_def)

lemma map_fst_expected_slices: "map fst (expected_slices v wss tt) = map fst wss"
  by (induction wss arbitrary: tt) auto

lemma concat_expected_slices:
  "concat (map (data \<circ> snd) (expected_slices v wss tt)) = take (total_size wss) (drop tt v)"
proof (induction wss arbitrary: tt)
  case Nil
  then show ?case by (simp add: total_size_Nil)
next
  case (Cons p rest)
  obtain k ws where p: "p = (k, ws)" by (cases p)
  have "take (prod_list ws) (drop tt v) @ take (total_size rest) (drop (tt + prod_list ws) v)
          = take (prod_list ws + total_size rest) (drop tt v)"
    by (simp add: take_add add.commute)
  with Cons.IH show ?case by (simp add: p total_size_Cons)
qed

lemma expected_slices_nth:
  "i < length wss \<Longrightarrow>
   expected_slices v wss tt ! i =
     (fst (wss ! i), NDArray (snd (wss ! i))
        (take (prod_list (snd (wss ! i))) (drop (tt + slice_start wss i) v)))"
proof (induction wss arbitrary: tt i)
  case Nil
  then show ?case by simp
next
  case (Cons p rest)
  obtain k ws where p: "p = (k, ws)" by (cases p)
  show ?case
  proof (cases i)
    case 0
    then show ?thesis by (simp add: p slice_start_def total_size_Nil)
  next
    case (Suc j)
    with Cons.prems have "j < length rest" by simp
    from Cons.IH [OF this] show ?thesis
      by (simp add: p Suc slice_start_def total_size_Cons add.assoc)
  qed
qed

text \<open>
  C10, as stated, fails: the claim is for every ordered \<^verbatim>\<open>weight_shapes\<close> and every vector
  \<open>v\<close> with \<open>len(v) == get_num_params(weight_shapes)\<close>. For the single shape
  \<open>(2^32, 2^32)\<close> the 64-bit product wraps to 0, so \<^verbatim>\<open>get_num_params\<close> is 0 and the empty
  vector meets the condition; \<^verbatim>\<open>unpack\<close> then cuts an empty slice and the reshape to
  \<open>(2^32, 2^32)\<close> raises.
\<close>

theorem unpack_int64_wraparound:
  "distinct (map fst [(''a'', [4294967296, 4294967296 :: nat])])
   \<and> int (length ([] :: int list)) = get_num_params [(''a'', [4294967296, 4294967296])]
   \<and> unpack ([] :: int list) [(''a'', [4294967296, 4294967296])] True
       = Inl (ReshapeError 0 [4294967296, 4294967296])"
  by (simp add: get_num_params_def np_prod_def wrap64_def unpack_def reshape_def py_slice_def
        Let_def)

text \<open>
  C10, amended. For an ordered \<^verbatim>\<open>weight_shapes\<close> (distinct keys) whose shapes ask for fewer
  than \<open>2^63\<close> elements in all, so that no 64-bit count wraps, and a vector \<open>v\<close> with
  \<open>len(v) == get_num_params(weight_shapes)\<close>, \<^verbatim>\<open>unpack\<close> returns a dictionary with the same
  keys in the same order; the \<open>i\<close>-th variable holds, under its declared shape, the
  \<open>prod_list\<close> of its shape many elements of \<open>v\<close> that start where the slice before it
  ended; the flattened values, concatenated in key order, are \<open>v\<close> again. With
  \<^verbatim>\<open>skip_chk=False\<close>, \<^verbatim>\<open>unpack\<close> fails on every vector whose length is not
  \<^verbatim>\<open>get_num_params(weight_shapes)\<close>.
\<close>

theorem unpack_slices:
  assumes "distinct (map fst wss)" and "total_size wss < 2 ^ 63"
    and "int (length v) = get_num_params wss"
  shows "(\<exists>D. unpack v wss skip_chk = Inr D
            \<and> map fst D = map fst wss
            \<and> (\<forall>i < length wss. snd (D ! i) =
                 NDArray (snd (wss ! i))
                   (take (prod_list (snd (wss ! i))) (drop (slice_start wss i) v)))
            \<and> concat (map (data \<circ> snd) D) = v)
       \<and> (\<forall>v' :: 'a list. int (length v') \<noteq> get_num_params wss
            \<longrightarrow> (\<exists>e. unpack v' wss False = Inl e))"
proof
  from assms(2,3) have lv: "length v = total_size wss"
    by (simp add: get_num_params_exact)
  have loop: "unpack_loop v wss 0 [] = Inr (int (total_size wss), expected_slices v wss 0)"
    using unpack_loop_ok [of 0 wss v "[]"] assms(1,2) lv by simp
  have "unpack v wss skip_chk = Inr (expected_slices v wss 0)"
    by (simp add: unpack_def loop lv map_fst_expected_slices)
  moreover have "concat (map (data \<circ> snd) (expected_slices v wss 0)) = v"
    using concat_expected_slices [of v wss 0] lv by simp
  ultimately show "\<exists>D. unpack v wss skip_chk = Inr D
            \<and> map fst D = map fst wss
            \<and> (\<forall>i < length wss. snd (D ! i) =
                 NDArray (snd (wss ! i))
                   (take (prod_list (snd (wss ! i))) (drop (slice_start wss i) v)))
            \<and> concat (map (data \<circ> snd) D) = v"
    by (simp add: map_fst_expected_slices expected_slices_nth)
next
  show "\<forall>v' :: 'a list. int (length v') \<noteq> get_num_params wss
            \<longrightarrow> (\<exists>e. unpack v' wss False = Inl e)"
  proof (intro allI impI)
    fix v' :: "'a list"
    assume ne: "int (length v') \<noteq> get_num_params wss"
    show "\<exists>e. unpack v' wss False = Inl e"
    proof (cases "unpack_loop v' wss 0 []")
      case (Inl e)
      then show ?thesis by (simp add: unpack_def)
    next
      case (Inr r)
      obtain tt' D' where r: "r = (tt', D')" by (cases r)
      from Inr r unpack_loop_tt [of v' wss 0 "[]" tt' D'] have "tt' = get_num_params wss"
        by (simp add: get_num_params_def)
      with ne Inr r show ?thesis by (auto simp: unpack_def)
    qed
  qed
qed

text \<open>
  The theorem at a matrix \<open>W\<close> of shape \<open>(2, 3)\<close> and a scalar \<open>b\<close>, unpacked from seven
  numbers, and at a vector of three numbers, which is refused.
\<close>

theorem unpack_slices_witness:
  "distinct (map fst [(''W'', [2, 3]), (''b'', [] :: nat list)])
   \<and> total_size [(''W'', [2, 3]), (''b'', [])] < 2 ^ 63
   \<and> int (length [1, 2, 3, 4, 5, 6, 7 :: int]) = get_num_params [(''W'', [2, 3]), (''b'', [])]
   \<and> (\<exists>D. unpack [1, 2, 3, 4, 5, 6, 7 :: int] [(''W'', [2, 3]), (''b'', [])] False = Inr D
          \<and> map fst D = [''W'', ''b'']
          \<and> snd (D ! 1) = NDArray [] [7]
          \<and> concat (map (data \<circ> snd) D) = [1, 2, 3, 4, 5, 6, 7])
   \<and> (\<exists>e. unpack [1, 2, 3 :: int] [(''W'', [2, 3]), (''b'', [])] False = Inl e)"
proof -
  let ?wss = "[(''W'', [2, 3]), (''b'', [] :: nat list)]"
  let ?v = "[1, 2, 3, 4, 5, 6, 7 :: int]"
  have d: "distinct (map fst ?wss)" by simp
  have s: "total_size ?wss < 2 ^ 63" by (simp add: total_size_def)
  have g: "get_num_params ?wss = 7"
    by (simp add: get_num_params_def np_prod_def wrap64_def)
  have l: "int (length ?v) = get_num_params ?wss" by (simp add: g)
  from unpack_slices [OF d s l, of False] obtain D where
    D: "unpack ?v ?wss False = Inr D" "map fst D = map fst ?wss"
       "\<forall>i < length ?wss. snd (D ! i) =
          NDArray (snd (?wss ! i)) (take (prod_list (snd (?wss ! i))) (drop (slice_start ?wss i) ?v))"
       "concat (map (data \<circ> snd) D) = ?v"
    and short: "\<forall>v' :: int list. int (length v') \<noteq> get_num_params ?wss
                 \<longrightarrow> (\<exists>e. unpack v' ?wss False = Inl e)"
    by blast
  from D(3) have "snd (D ! 1) = NDArray [] [7]"
    by (simp add: slice_start_def total_size_def)
  moreover from short have "\<exists>e. unpack [1, 2, 3 :: int] ?wss False = Inl e"
    by (simp add: g)
  ultimately show ?thesis using d s l D(1,2,4) by auto
qed

section \<open>Properties of the weight slices of \<^verbatim>\<open>MLPWeightNorm_BHN\<close>\<close>

lemma num_params_Nil: "num_params [] = 0"
  by (simp add: num_params_def)

lemma num_params_Cons: "num_params (ws # rest) = snd ws + num_params rest"
  by (simp add: num_params_def)

lemma num_params_take_Suc:
  "i < length wss \<Longrightarrow> num_params (take (Suc i) wss) = num_params (take i wss) + snd (wss ! i)"
  by (simp add: num_params_def take_Suc_conv_app_nth)

lemma num_params_take_mono:
  "i \<le> j \<Longrightarrow> num_params (take i wss) \<le> num_params (take j wss)"
proof (induction wss arbitrary: i j)
  case Nil
  then show ?case by simp
next
  case (Cons ws rest)
  show ?case
  proof (cases i)
    case 0
    then show ?thesis by (simp add: num_params_Nil)
  next
    case (Suc i')
    with Cons.prems obtain j' where j: "j = Suc j'" and le: "i' \<le> j'" by (cases j) auto
    from Cons.IH [OF le] show ?thesis by (simp add: Suc j num_params_Cons)
  qed
qed

lemma length_primary_net_slices: "length (primary_net_slices wss t) = length wss"
  by (induction wss arbitrary: t) (auto simp: Let_def)

text \<open>The \<open>i\<close>-th slice starts after the widths of the layers before it.\<close>

lemma primary_net_slices_nth:
  "i < length wss \<Longrightarrow>
   primary_net_slices wss t ! i =
     (t + num_params (take i wss), t + num_params (take i wss) + snd (wss ! i))"
proof (induction wss arbitrary: t i)
  case Nil
  then show ?case by simp
next
  case (Cons ws rest)
  show ?case
  proof (cases i)
    case 0
    then show ?thesis by (simp add: Let_def num_params_Nil)
  next
    case (Suc j)
    with Cons.prems have "j < length rest" by simp
    from Cons.IH [OF this] show ?thesis
      by (simp add: Suc Let_def num_params_Cons add.assoc)
  qed
qed

lemma slice_widths_sum:
  "sum_list (map (\<lambda>r. snd r - fst r) (primary_net_slices wss t)) = num_params wss"
  by (induction wss arbitrary: t) (auto simp: Let_def num_params_Nil num_params_Cons)

lemma slice_cols_union:
  "(\<Union>r \<in> set (primary_net_slices wss t). cols r) = {t ..< t + num_params wss}"
proof (induction wss arbitrary: t)
  case Nil
  then show ?case by (simp add: num_params_Nil)
next
  case (Cons ws rest)
  have "{t ..< t + snd ws} \<union> {t + snd ws ..< t + snd ws + num_params rest}
          = {t ..< t + (snd ws + num_params rest)}"
    by auto
  with Cons.IH [of "t + snd ws"] show ?case
    by (simp add: Let_def num_params_Cons cols_def)
qed

lemma slice_cols_disjoint:
  assumes "i < j" and "j < length wss"
  shows "cols (primary_net_slices wss t ! i) \<inter> cols (primary_net_slices wss t ! j) = {}"
proof -
  from assms have i: "i < length wss" by simp
  from assms(1) have "num_params (take (Suc i) wss) \<le> num_params (take j wss)"
    by (intro num_params_take_mono) simp
  then have "num_params (take i wss) + snd (wss ! i) \<le> num_params (take j wss)"
    by (simp add: num_params_take_Suc [OF i])
  then show ?thesis
    by (auto simp: primary_net_slices_nth [OF i] primary_net_slices_nth [OF assms(2)] cols_def)
qed

text \<open>A slice that ends inside every row passes its reshape.\<close>

lemma slice_weight_ok:
  assumes "\<forall>row \<in> set W. hi \<le> length row" and "lo \<le> hi"
  shows "slice_weight W (lo, hi) = Inr (map (\<lambda>row. take (hi - lo) (drop lo row)) W)"
proof -
  from assms have "sum_list (map length (map (\<lambda>row. take (hi - lo) (drop lo row)) W))
                     = length W * (hi - lo)"
    by (induction W) auto
  then show ?thesis by (simp add: slice_weight_def Let_def)
qed

text \<open>
  On rows that hold all the columns, every layer gets its weights, and row by row the
  weights of the layers put side by side are the columns from \<open>t\<close> on.
\<close>

lemma layer_weights_ok:
  assumes "\<forall>row \<in> set W. t + num_params wss \<le> length row"
  shows "\<exists>ws. layer_weights W (primary_net_slices wss t) = Inr ws
           \<and> length ws = length wss
           \<and> (\<forall>k < length W. concat (map (\<lambda>w. w ! k) ws)
                  = take (num_params wss) (drop t (W ! k)))"
  using assms
proof (induction wss arbitrary: t)
  case Nil
  then show ?case by (simp add: num_params_Nil)
next
  case (Cons p rest)
  have here: "\<forall>row \<in> set W. t + snd p \<le> length row"
  proof
    fix row assume "row \<in> set W"
    with Cons.prems have "t + num_params (p # rest) \<le> length row" by blast
    then show "t + snd p \<le> length row" by (simp add: num_params_Cons)
  qed
  have there: "\<forall>row \<in> set W. (t + snd p) + num_params rest \<le> length row"
  proof
    fix row assume "row \<in> set W"
    with Cons.prems have "t + num_params (p # rest) \<le> length row" by blast
    then show "(t + snd p) + num_params rest \<le> length row" by (simp add: num_params_Cons)
  qed
  from slice_weight_ok [OF here] have
    s: "slice_weight W (t, t + snd p) = Inr (map (\<lambda>row. take (snd p) (drop t row)) W)"
    by simp
  from Cons.IH [OF there] obtain ws where
    ws: "layer_weights W (primary_net_slices rest (t + snd p)) = Inr ws"
    and len: "length ws = length rest"
    and rows: "\<forall>k < length W. concat (map (\<lambda>w. w ! k) ws)
                  = take (num_params rest) (drop (t + snd p) (W ! k))"
    by blast
  have "concat (map (\<lambda>w. w ! k) (map (\<lambda>row. take (snd p) (drop t row)) W # ws))
          = take (num_params (p # rest)) (drop t (W ! k))" if "k < length W" for k
  proof -
    have "take (snd p) (drop t (W ! k)) @ take (num_params rest) (drop (t + snd p) (W ! k))
            = take (snd p + num_params rest) (drop t (W ! k))"
      by (simp add: take_add add.commute)
    with that rows show ?thesis by (simp add: num_params_Cons)
  qed
  with s ws len show ?case by (simp add: Let_def)
qed

lemma length_weight_shapes:
  "1 \<le> nh \<Longrightarrow> length (weight_shapes nh nu ni nc) = nh + 1"
  by (simp add: weight_shapes_def)

text \<open>
  C6. For every \<^verbatim>\<open>MLPWeightNorm_BHN\<close> configuration with \<open>n_hiddens \<ge> 1\<close>, the loop of
  \<^verbatim>\<open>_get_primary_net\<close> reads one slice per layer, \<open>n_hiddens + 1\<close> in all; the \<open>i\<close>-th slice is
  the column range \<open>[t, t + out_dim)\<close> with \<open>t\<close> the sum of the output widths of the layers
  before it; two different slices share no column; the widths add up to \<open>num_params\<close>, the
  sum of the output widths; the slices together are exactly the columns \<open>[0, num_params)\<close>;
  and on a matrix of weights with \<open>num_params\<close> columns every reshape passes and each row
  is the concatenation of what the layers receive from it, with nothing left over.
\<close>

theorem weight_slices_cover:
  fixes W :: "'a list list"
  assumes "1 \<le> nh"
  shows "let wss = weight_shapes nh nu ni nc;
             sl = primary_net_slices wss 0
         in length sl = nh + 1
          \<and> (\<forall>i < length sl. sl ! i =
                (num_params (take i wss), num_params (take i wss) + snd (wss ! i)))
          \<and> (\<forall>i < length sl. \<forall>j < length sl. i \<noteq> j \<longrightarrow> cols (sl ! i) \<inter> cols (sl ! j) = {})
          \<and> sum_list (map (\<lambda>r. snd r - fst r) sl) = num_params wss
          \<and> (\<Union>r \<in> set sl. cols r) = {0 ..< num_params wss}
          \<and> ((\<forall>row \<in> set W. length row = num_params wss) \<longrightarrow>
                (\<exists>ws. layer_weights W sl = Inr ws \<and> length ws = nh + 1
                   \<and> (\<forall>k < length W. concat (map (\<lambda>w. w ! k) ws) = W ! k)))"
proof -
  define wss where "wss = weight_shapes nh nu ni nc"
  define sl where "sl = primary_net_slices wss 0"
  have len: "length sl = length wss"
    by (simp add: sl_def length_primary_net_slices)
  have lw: "length wss = nh + 1"
    using assms by (simp add: wss_def length_weight_shapes)
  have 1: "length sl = nh + 1"
    by (simp add: len lw)
  have 2: "\<forall>i < length sl. sl ! i =
                (num_params (take i wss), num_params (take i wss) + snd (wss ! i))"
    by (simp add: sl_def length_primary_net_slices primary_net_slices_nth)
  have 3: "\<forall>i < length sl. \<forall>j < length sl. i \<noteq> j \<longrightarrow> cols (sl ! i) \<inter> cols (sl ! j) = {}"
  proof (intro allI impI)
    fix i j assume ij: "i < length sl" "j < length sl" "i \<noteq> j"
    then consider "i < j" | "j < i" by linarith
    then show "cols (sl ! i) \<inter> cols (sl ! j) = {}"
    proof cases
      case 1
      with ij show ?thesis unfolding sl_def
        by (intro slice_cols_disjoint) (simp_all add: length_primary_net_slices)
    next
      case 2
      with ij have "cols (sl ! j) \<inter> cols (sl ! i) = {}" unfolding sl_def
        by (intro slice_cols_disjoint) (simp_all add: length_primary_net_slices)
      then show ?thesis by (simp add: Int_commute)
    qed
  qed
  have 4: "sum_list (map (\<lambda>r. snd r - fst r) sl) = num_params wss"
    by (simp add: sl_def slice_widths_sum)
  have 5: "(\<Union>r \<in> set sl. cols r) = {0 ..< num_params wss}"
    using slice_cols_union [of wss 0] by (simp add: sl_def)
  have 6: "\<exists>ws. layer_weights W sl = Inr ws \<and> length ws = nh + 1
                   \<and> (\<forall>k < length W. concat (map (\<lambda>w. w ! k) ws) = W ! k)"
    if full: "\<forall>row \<in> set W. length row = num_params wss"
  proof -
    from full have "\<forall>row \<in> set W. 0 + num_params wss \<le> length row" by simp
    from layer_weights_ok [OF this] obtain ws where
      ws: "layer_weights W sl = Inr ws" "length ws = length wss"
      and rows: "\<forall>k < length W. concat (map (\<lambda>w. w ! k) ws)
                   = take (num_params wss) (drop 0 (W ! k))"
      unfolding sl_def by blast
    from rows full have "\<forall>k < length W. concat (map (\<lambda>w. w ! k) ws) = W ! k"
      by simp
    with ws lw show ?thesis by auto
  qed
  from 1 2 3 4 5 6 show ?thesis
    unfolding Let_def wss_def [symmetric] sl_def [symmetric] by blast
qed

text \<open>
  The theorem at two hidden layers of three units, four inputs and two classes: three
  slices of widths 3, 3 and 2 over the eight columns of one row of weights.
\<close>

theorem weight_slices_cover_witness:
  "(1 :: nat) \<le> 2
   \<and> length (primary_net_slices (weight_shapes 2 3 4 2) 0) = 3
   \<and> primary_net_slices (weight_shapes 2 3 4 2) 0 ! 2 = (6, 8)
   \<and> cols (primary_net_slices (weight_shapes 2 3 4 2) 0 ! 1)
       \<inter> cols (primary_net_slices (weight_shapes 2 3 4 2) 0 ! 2) = {}
   \<and> (\<Union>r \<in> set (primary_net_slices (weight_shapes 2 3 4 2) 0). cols r) = {0 ..< 8}
   \<and> (\<exists>ws. layer_weights [[1, 2, 3, 4, 5, 6, 7, 8 :: int]]
              (primary_net_slices (weight_shapes 2 3 4 2) 0) = Inr ws
          \<and> length ws = 3
          \<and> concat (map (\<lambda>w. w ! 0) ws) = [1, 2, 3, 4, 5, 6, 7, 8])"
proof -
  let ?W = "[[1, 2, 3, 4, 5, 6, 7, 8 :: int]]"
  let ?wss = "weight_shapes 2 3 4 2"
  let ?sl = "primary_net_slices ?wss 0"
  have h: "(1 :: nat) \<le> 2" by simp
  have np: "num_params ?wss = 8"
    by (simp add: weight_shapes_def num_params_def)
  have np2: "num_params (take 2 ?wss) = 6"
    by (simp add: weight_shapes_def num_params_def)
  have w2: "snd (?wss ! 2) = 2"
    by (simp add: weight_shapes_def)
  have full: "\<forall>row \<in> set ?W. length row = num_params ?wss"
    by (simp add: np)
  have inst:
    "length ?sl = 2 + 1
     \<and> (\<forall>i < length ?sl. ?sl ! i =
           (num_params (take i ?wss), num_params (take i ?wss) + snd (?wss ! i)))
     \<and> (\<forall>i < length ?sl. \<forall>j < length ?sl. i \<noteq> j \<longrightarrow> cols (?sl ! i) \<inter> cols (?sl ! j) = {})
     \<and> sum_list (map (\<lambda>r. snd r - fst r) ?sl) = num_params ?wss
     \<and> (\<Union>r \<in> set ?sl. cols r) = {0 ..< num_params ?wss}
     \<and> ((\<forall>row \<in> set ?W. length row = num_params ?wss) \<longrightarrow>
           (\<exists>ws. layer_weights ?W ?sl = Inr ws \<and> length ws = 2 + 1
              \<and> (\<forall>k < length ?W. concat (map (\<lambda>w. w ! k) ws) = ?W ! k)))"
    using weight_slices_cover [OF h, of 3 4 2 ?W] unfolding Let_def .
  note r1 = inst [THEN conjunct2]
  note r2 = r1 [THEN conjunct2]
  note r3 = r2 [THEN conjunct2]
  note r4 = r3 [THEN conjunct2]
  from inst [THEN conjunct1] have a: "length ?sl = 3" by simp
  note b = r1 [THEN conjunct1]
  note c = r2 [THEN conjunct1]
  note d = r4 [THEN conjunct1]
  from r4 [THEN conjunct2, THEN mp, OF full] obtain ws where
    e: "layer_weights ?W ?sl = Inr ws" "length ws = 2 + 1"
       "\<forall>k < length ?W. concat (map (\<lambda>w. w ! k) ws) = ?W ! k"
    by (elim exE conjE)
  from b a have b': "?sl ! 2 = (6, 8)"
    by (simp add: np2 w2)
  from c a have c': "cols (?sl ! 1) \<inter> cols (?sl ! 2) = {}"
    by simp
  from d have d': "(\<Union>r \<in> set ?sl. cols r) = {0 ..< 8}"
    by (simp only: np)
  from e(3) have "concat (map (\<lambda>w. w ! 0) ws) = [1, 2, 3, 4, 5, 6, 7, 8]"
    by simp
  with e(1,2) have e': "\<exists>ws. layer_weights ?W ?sl = Inr ws \<and> length ws = 3
          \<and> concat (map (\<lambda>w. w ! 0) ws) = [1, 2, 3, 4, 5, 6, 7, 8]"
    by (intro exI [of _ ws]) simp
  from h a b' c' d' e' show ?thesis by (intro conjI)
qed

section \<open>Properties of the hyper net\<close>





section \<open>Properties of \<^verbatim>\<open>save\<close> and \<^verbatim>\<open>load\<close>\<close>

text \<open>A value whose shape is not that of its parameter makes the loop raise.\<close>

lemma load_loop_shape_mismatch:
  "i < length ps \<Longrightarrow> i < length vs \<Longrightarrow> entry_shape (vs ! i) \<noteq> Some (shape (ps ! i)) \<Longrightarrow>
   snd (load_loop ps vs) \<noteq> None"
proof (induction ps vs arbitrary: i rule: load_loop.induct)
  case (1 vs)
  then show ?case by simp
next
  case (2 p ps)
  then show ?case by simp
next
  case (3 p ps n vs)
  then show ?case by simp
next
  case (4 p ps v vs)
  show ?case
  proof (cases "shape p = shape v")
    case False
    then show ?thesis by simp
  next
    case True
    with "4.prems" obtain j where j: "i = Suc j" by (cases i) auto
    with "4.prems" have "j < length ps" "j < length vs"
      "entry_shape (vs ! j) \<noteq> Some (shape (ps ! j))" by simp_all
    from "4.IH" [OF _ this] True have "snd (load_loop ps vs) \<noteq> None" by simp
    with True show ?thesis by (simp add: case_prod_beta)
  qed
qed

text \<open>A loop that ends without an error has assigned every value to its parameter.\<close>

lemma load_loop_assigns:
  "length ps = length vs \<Longrightarrow> load_loop ps vs = (ps', None) \<Longrightarrow> map Value ps' = vs"
proof (induction ps vs arbitrary: ps' rule: load_loop.induct)
  case (1 vs)
  then show ?case by simp
next
  case (2 p ps)
  then show ?case by simp
next
  case (3 p ps n vs)
  then show ?case by simp
next
  case (4 p ps v vs)
  from "4.prems"(2) have eq: "shape p = shape v"
    by (auto split: if_splits)
  obtain qs r where l: "load_loop ps vs = (qs, r)" by (cases "load_loop ps vs")
  with "4.prems"(2) eq have "r = None" "ps' = v # qs" by simp_all
  moreover from "4.IH" [of qs] eq l \<open>r = None\<close> "4.prems"(1) have "map Value qs = vs" by simp
  ultimately show ?case by simp
qed

text \<open>
  C8. \<^verbatim>\<open>Base_BHN.load\<close> raises whenever the number of values read, once the trailing notes
  entry is removed, differs from the number of parameters, and whenever a value has not the
  shape of the parameter at its position. When it does not raise, the parameters hold
  exactly the values read, in order, and the notes returned are the last entry: nothing
  is cut off or filled in.
\<close>

theorem load_mismatch_raises:
  "(length (butlast file) \<noteq> length params \<longrightarrow> (\<exists>e. snd (load file params) = Inl e))
   \<and> ((\<exists>i. i < length params \<and> i < length (butlast file)
            \<and> entry_shape (butlast file ! i) \<noteq> Some (shape (params ! i)))
        \<longrightarrow> (\<exists>e. snd (load file params) = Inl e))
   \<and> (\<forall>n. snd (load file params) = Inr n
        \<longrightarrow> map Value (fst (load file params)) = butlast file \<and> n = last file)"
proof -
  have count: "\<exists>e. snd (load file params) = Inl e"
    if "length (butlast file) \<noteq> length params"
    using that by (auto simp: load_def Let_def)
  have shapes: "\<exists>e. snd (load file params) = Inl e"
    if "\<exists>i. i < length params \<and> i < length (butlast file)
            \<and> entry_shape (butlast file ! i) \<noteq> Some (shape (params ! i))"
  proof -
    from that obtain i where "i < length params" "i < length (butlast file)"
      "entry_shape (butlast file ! i) \<noteq> Some (shape (params ! i))" by blast
    from load_loop_shape_mismatch [OF this] obtain ps' e where
      "load_loop params (butlast file) = (ps', Some e)"
      by (cases "load_loop params (butlast file)") auto
    then show ?thesis
      by (auto simp: load_def Let_def)
  qed
  have assigned: "map Value (fst (load file params)) = butlast file \<and> n = last file"
    if ok: "snd (load file params) = Inr n" for n
  proof -
    from ok have ne: "file \<noteq> []" and len: "length params = length (butlast file)"
      by (auto simp: load_def Let_def split: if_splits)
    obtain ps' r where l: "load_loop params (butlast file) = (ps', r)"
      by (cases "load_loop params (butlast file)")
    with ok ne len have r: "r = None" and n: "n = last file"
      by (auto simp: load_def Let_def split: option.splits)
    from ne len l r have "fst (load file params) = ps'"
      by (simp add: load_def Let_def)
    with load_loop_assigns [OF len l [unfolded r]] n show ?thesis
      by simp
  qed
  from count shapes assigned show ?thesis by blast
qed

text \<open>
  The theorem at one parameter of shape \<open>(2)\<close>: a file with two values and a note, a file
  whose value has shape \<open>(3)\<close>, and a file that fits.
\<close>

theorem load_mismatch_raises_witness:
  "length (butlast [Value (NDArray [2] [1, 2 :: int]), Value (NDArray [2] [3, 4]), Note ''n''])
     \<noteq> length [NDArray [2] [0, 0 :: int]]
   \<and> (\<exists>e. snd (load [Value (NDArray [2] [1, 2 :: int]), Value (NDArray [2] [3, 4]), Note ''n'']
                  [NDArray [2] [0, 0]]) = Inl e)
   \<and> entry_shape (butlast [Value (NDArray [3] [1, 2, 3 :: int]), Note ''n''] ! 0)
        \<noteq> Some (shape ([NDArray [2] [0, 0 :: int]] ! 0))
   \<and> (\<exists>e. snd (load [Value (NDArray [3] [1, 2, 3 :: int]), Note ''n''] [NDArray [2] [0, 0]]) = Inl e)
   \<and> snd (load [Value (NDArray [2] [1, 2 :: int]), Note ''n''] [NDArray [2] [0, 0]]) = Inr (Note ''n'')
   \<and> map Value (fst (load [Value (NDArray [2] [1, 2 :: int]), Note ''n''] [NDArray [2] [0, 0]]))
        = [Value (NDArray [2] [1, 2]) :: (int, string) entry]"
proof -
  let ?p = "[NDArray [2] [0, 0 :: int]]"
  let ?f1 = "[Value (NDArray [2] [1, 2 :: int]), Value (NDArray [2] [3, 4]), Note ''n'']"
  let ?f2 = "[Value (NDArray [3] [1, 2, 3 :: int]), Note ''n'']"
  let ?f3 = "[Value (NDArray [2] [1, 2 :: int]), Note ''n'']"
  have h1: "length (butlast ?f1) \<noteq> length ?p" by simp
  have h2: "entry_shape (butlast ?f2 ! 0) \<noteq> Some (shape (?p ! 0))" by simp
  have h3: "snd (load ?f3 ?p) = Inr (Note ''n'')" by (simp add: load_def)
  from load_mismatch_raises [of ?f1 ?p] h1
  have c1: "\<exists>e. snd (load ?f1 ?p) = Inl e" by blast
  have "\<exists>i. i < length ?p \<and> i < length (butlast ?f2)
            \<and> entry_shape (butlast ?f2 ! i) \<noteq> Some (shape (?p ! i))"
    using h2 by (intro exI [of _ 0]) simp
  with load_mismatch_raises [of ?f2 ?p]
  have c2: "\<exists>e. snd (load ?f2 ?p) = Inl e" by blast
  from load_mismatch_raises [of ?f3 ?p] h3
  have "map Value (fst (load ?f3 ?p)) = butlast ?f3" by blast
  then have c3: "map Value (fst (load ?f3 ?p)) = [Value (NDArray [2] [1, 2]) :: (int, string) entry]"
    by simp
  from h1 c1 h2 c2 h3 c3 show ?thesis by blast
qed

text \<open>
  With exactly one note the round trip works: the parameters come back as saved and the
  note is returned.
\<close>

lemma load_loop_saved:
  "map shape ps' = map shape ps \<Longrightarrow>
   load_loop ps' (map Value ps :: ('a, 'n) entry list) = (ps, None)"
proof (induction ps arbitrary: ps')
  case Nil
  then show ?case by simp
next
  case (Cons p ps)
  then obtain q qs where "ps' = q # qs" "shape q = shape p" "map shape qs = map shape ps"
    by (cases ps') auto
  with Cons.IH [of qs] show ?case by simp
qed

lemma save_one_note_load:
  fixes n :: 'n
  assumes s: "map shape params' = map shape params"
  shows "load (save params [n]) params' = (params, Inr (Note n))"
proof -
  from s have "length params' = length params"
    by (rule map_eq_imp_length_eq)
  moreover have "load_loop params' (map Value params :: ('a, 'n) entry list) = (params, None)"
    using s by (rule load_loop_saved)
  ultimately show ?thesis
    by (simp add: load_def save_def Let_def)
qed

text \<open>
  C2. The claim is that \<^verbatim>\<open>save(path)\<close> with the default empty notes followed by \<^verbatim>\<open>load(path)\<close>
  on a fresh model of the same architecture restores every parameter. The code does
  otherwise: \<^verbatim>\<open>save\<close> then writes the parameter values and nothing else, \<^verbatim>\<open>load\<close> takes the
  last of them for the notes, is left with one value too few, and raises the count
  mismatch without assigning anything. This holds for every model that has a parameter.
\<close>

theorem save_default_notes_load_fails:
  assumes "params \<noteq> []" and "length params' = length params"
  shows "load (save params ([] :: 'n list)) params'
           = (params', Inl (CountMismatch (length params - 1) (length params')))"
proof -
  from assms(1) have "save params ([] :: 'n list) \<noteq> []"
    by (simp add: save_def)
  moreover from assms have "length params' \<noteq> length (butlast (save params ([] :: 'n list)))"
    by (cases params) (simp_all add: save_def)
  ultimately show ?thesis
    by (simp add: load_def Let_def save_def)
qed

text \<open>
  The theorem at a model with a weight matrix of shape \<open>(3, 2)\<close> and a bias of shape \<open>(2)\<close>,
  saved, and loaded into a fresh model whose parameters are all 0.
\<close>

theorem save_default_notes_load_fails_witness:
  "[NDArray [3, 2] [1, 2, 3, 4, 5, 6 :: int], NDArray [2] [7, 8]] \<noteq> []
   \<and> length [NDArray [3, 2] [0, 0, 0, 0, 0, 0 :: int], NDArray [2] [0, 0]]
       = length [NDArray [3, 2] [1, 2, 3, 4, 5, 6 :: int], NDArray [2] [7, 8]]
   \<and> load (save [NDArray [3, 2] [1, 2, 3, 4, 5, 6 :: int], NDArray [2] [7, 8]] ([] :: string list))
          [NDArray [3, 2] [0, 0, 0, 0, 0, 0], NDArray [2] [0, 0]]
       = ([NDArray [3, 2] [0, 0, 0, 0, 0, 0], NDArray [2] [0, 0]], Inl (CountMismatch 1 2))"
proof -
  let ?p = "[NDArray [3, 2] [1, 2, 3, 4, 5, 6 :: int], NDArray [2] [7, 8]]"
  let ?q = "[NDArray [3, 2] [0, 0, 0, 0, 0, 0 :: int], NDArray [2] [0, 0]]"
  have a: "?p \<noteq> []" by simp
  have b: "length ?q = length ?p" by simp
  from save_default_notes_load_fails [OF a b, where ?'n = string] a b
  show ?thesis by simp
qed

section \<open>Properties of the constructed model\<close>

lemma clip_bounds: "lo \<le> hi \<Longrightarrow> lo \<le> clip x lo hi \<and> clip x lo hi \<le> hi"
  by (simp add: clip_def)

lemma get_hyper_net_ok:
  assumes "fl = ''RealNVP'' \<or> fl = ''IAF''"
    and "nd = ''spherical_gaussian'' \<or> nd = ''exponential_MoG''"
  shows "\<exists>hn. get_hyper_net fl c nd np = Inr hn"
  using assms by (auto simp: get_hyper_net_def Let_def split: prod.splits)

lemma get_train_func_ok:
  assumes "nm = ''adam'' \<or> nm = ''momentum'' \<or> nm = ''sgd''"
  shows "\<exists>us. get_train_func (get_grads nm) = Inr us"
  using assms by (auto simp: get_train_func_def get_grads_def Let_def)

text \<open>With every configuration value supported, the construction succeeds.\<close>

lemma construct_categorical:
  assumes "flow cfg = ''RealNVP'' \<or> flow cfg = ''IAF''"
    and "noise_distribution cfg = ''spherical_gaussian'' \<or> noise_distribution cfg = ''exponential_MoG''"
    and "opt cfg = ''adam'' \<or> opt cfg = ''momentum'' \<or> opt cfg = ''sgd''"
    and "output_type cfg = ''categorical''"
  shows "\<exists>hn sl us. construct prior cfg =
           Inr \<lparr>m_hyper_net = hn,
                m_primary_net = \<lparr>self_slices = sl, self_nonlinearity = nl_softmax,
                   self_y = (\<lambda>out. map (map (\<lambda>p. clip p 0.001 0.999)) out),
                   self_y_unclipped = (\<lambda>out. out)\<rparr>,
                predict_proba = (\<lambda>out. map (map (\<lambda>p. clip p 0.001 0.999)) out),
                train_loss = (\<lambda>out inp. loss logpyx_categorical (kl prior (lbda cfg))
                   (inp\<lparr>in_y := map (map (\<lambda>p. clip p 0.001 0.999)) out\<rparr>)),
                m_updates = us\<rparr>"
proof -
  from get_hyper_net_ok [OF assms(1,2)] obtain hn where
    "get_hyper_net (flow cfg) (coupling cfg) (noise_distribution cfg)
       (num_params (weight_shapes (n_hiddens cfg) (n_units cfg) (n_inputs cfg) (n_classes cfg)))
     = Inr hn"
    by blast
  moreover from get_train_func_ok [OF assms(3)] obtain us where
    "get_train_func (get_grads (opt cfg)) = Inr us"
    by blast
  ultimately show ?thesis
    by (simp add: construct_def Let_def and_then_def get_primary_net_def get_elbo_def assms(4))
qed

text \<open>
  C7. For \<^verbatim>\<open>output_type='categorical'\<close> and a configuration that constructs, every entry of
  the tensor that \<^verbatim>\<open>predict_proba\<close> returns lies in \<open>[0.001, 0.999]\<close>, whatever the output \<open>out\<close>
  of the primary net is, and the loss of a training step is the loss of \<^verbatim>\<open>_get_elbo\<close> with
  that same tensor as its \<^verbatim>\<open>y\<close>, the argument of the cross-entropy.
\<close>

theorem predicted_probabilities_clipped:
  assumes "flow cfg = ''RealNVP'' \<or> flow cfg = ''IAF''"
    and "noise_distribution cfg = ''spherical_gaussian'' \<or> noise_distribution cfg = ''exponential_MoG''"
    and "opt cfg = ''adam'' \<or> opt cfg = ''momentum'' \<or> opt cfg = ''sgd''"
    and "output_type cfg = ''categorical''"
  shows "\<exists>m. construct prior cfg = Inr m
           \<and> (\<forall>row \<in> set (predict_proba m out). \<forall>p \<in> set row. 0.001 \<le> p \<and> p \<le> 0.999)
           \<and> train_loss m out inp =
               loss logpyx_categorical (kl prior (lbda cfg)) (inp\<lparr>in_y := predict_proba m out\<rparr>)"
proof -
  from construct_categorical [OF assms, of prior] obtain m where
    m: "construct prior cfg = Inr m"
    and p: "predict_proba m = (\<lambda>out. map (map (\<lambda>p. clip p 0.001 0.999)) out)"
    and t: "train_loss m = (\<lambda>out inp. loss logpyx_categorical (kl prior (lbda cfg))
                   (inp\<lparr>in_y := map (map (\<lambda>p. clip p 0.001 0.999)) out\<rparr>))"
    by fastforce
  have "\<forall>row \<in> set (predict_proba m out). \<forall>p \<in> set row. 0.001 \<le> p \<and> p \<le> 0.999"
    using clip_bounds [of "0.001" "0.999"] by (auto simp: p)
  with m show ?thesis by (auto simp: p t)
qed

text \<open>
  The theorem at the default configuration and a primary-net output with an entry below,
  one inside and one above the interval.
\<close>

theorem predicted_probabilities_clipped_witness:
  "(flow default_config = ''RealNVP'' \<or> flow default_config = ''IAF'')
   \<and> (noise_distribution default_config = ''spherical_gaussian''
        \<or> noise_distribution default_config = ''exponential_MoG'')
   \<and> (opt default_config = ''adam'' \<or> opt default_config = ''momentum''
        \<or> opt default_config = ''sgd'')
   \<and> output_type default_config = ''categorical''
   \<and> (\<exists>m. construct identity_prior default_config = Inr m
          \<and> predict_proba m [[0, 1 / 2, 1]] = [[0.001, 1 / 2, 0.999]]
          \<and> 0.001 \<le> hd (hd (predict_proba m [[0, 1 / 2, 1]]))
          \<and> last (hd (predict_proba m [[0, 1 / 2, 1]])) \<le> 0.999)"
proof -
  have a: "flow default_config = ''RealNVP'' \<or> flow default_config = ''IAF''"
    by (simp add: default_config_def)
  have b: "noise_distribution default_config = ''spherical_gaussian''
        \<or> noise_distribution default_config = ''exponential_MoG''"
    by (simp add: default_config_def)
  have c: "opt default_config = ''adam'' \<or> opt default_config = ''momentum''
        \<or> opt default_config = ''sgd''"
    by (simp add: default_config_def)
  have d: "output_type default_config = ''categorical''"
    by (simp add: default_config_def)
  from predicted_probabilities_clipped [OF a b c d, of identity_prior "[[0, 1 / 2, 1]]"]
  obtain m where m: "construct identity_prior default_config = Inr m"
    and r: "\<forall>row \<in> set (predict_proba m [[0, 1 / 2, 1]]). \<forall>p \<in> set row. 0.001 \<le> p \<and> p \<le> 0.999"
    by blast
  from construct_categorical [OF a b c d, of identity_prior] m
  have p: "predict_proba m [[0, 1 / 2, 1]] = [[0.001, 1 / 2, 0.999]]"
    by (auto simp: clip_def)
  from r p have "0.001 \<le> hd (hd (predict_proba m [[0, 1 / 2, 1]]))"
    and "last (hd (predict_proba m [[0, 1 / 2, 1]])) \<le> 0.999"
    by simp_all
  with a b c d m p show ?thesis by blast
qed

lemma get_primary_net_unsupported:
  "ot \<noteq> ''categorical'' \<Longrightarrow> ot \<noteq> ''real'' \<Longrightarrow> get_primary_net ot wss = Inl AssertionError"
  by (simp add: get_primary_net_def Let_def)

lemma get_hyper_net_unsupported:
  "fl \<noteq> ''RealNVP'' \<Longrightarrow> fl \<noteq> ''IAF'' \<Longrightarrow> get_hyper_net fl c nd np = Inl AssertionError"
  by (simp add: get_hyper_net_def Let_def)

lemma get_train_func_unsupported:
  "nm \<noteq> ''adam'' \<Longrightarrow> nm \<noteq> ''momentum'' \<Longrightarrow> nm \<noteq> ''sgd'' \<Longrightarrow>
   get_train_func (get_grads nm) = Inl (AttributeError ''updates'')"
  by (simp add: get_train_func_def get_grads_def Let_def)

text \<open>
  C4, as stated, fails: the claim is that an unsupported configuration value stops the
  construction with a descriptive error. With the unknown flow kind \<^verbatim>\<open>'MAF'\<close> and every
  other argument at its default, the construction stops at the bare \<^verbatim>\<open>assert False\<close> of
  \<^verbatim>\<open>_get_hyper_net\<close>, an \<^verbatim>\<open>AssertionError\<close> that carries no message.
\<close>

theorem unsupported_flow_error_has_no_message:
  "construct identity_prior (default_config\<lparr>flow := ''MAF''\<rparr>) = Inl AssertionError
   \<and> \<not> has_message AssertionError"
  by (simp add: construct_def Let_def and_then_def default_config_def get_hyper_net_unsupported)

text \<open>
  C4, amended. Constructing a model with an unsupported configuration value fails at
  construction time: with a flow kind other than \<^verbatim>\<open>'RealNVP'\<close> or \<^verbatim>\<open>'IAF'\<close> it stops with the
  bare \<^verbatim>\<open>AssertionError\<close> of \<^verbatim>\<open>_get_hyper_net\<close>; with an output type other than
  \<^verbatim>\<open>'categorical'\<close> or \<^verbatim>\<open>'real'\<close> it stops, and when the hyper net could be built, with the
  bare \<^verbatim>\<open>AssertionError\<close> of \<^verbatim>\<open>_get_primary_net\<close>; with an optimizer name other than
  \<^verbatim>\<open>'adam'\<close>, \<^verbatim>\<open>'momentum'\<close> or \<^verbatim>\<open>'sgd'\<close> it stops as well. No training step is reached.
\<close>

theorem unsupported_config_fails:
  "(flow cfg \<noteq> ''RealNVP'' \<and> flow cfg \<noteq> ''IAF''
      \<longrightarrow> construct prior cfg = Inl AssertionError)
   \<and> (output_type cfg \<noteq> ''categorical'' \<and> output_type cfg \<noteq> ''real''
      \<longrightarrow> (\<exists>e. construct prior cfg = Inl e))
   \<and> (output_type cfg \<noteq> ''categorical'' \<and> output_type cfg \<noteq> ''real''
        \<and> (flow cfg = ''RealNVP'' \<or> flow cfg = ''IAF'')
        \<and> (noise_distribution cfg = ''spherical_gaussian''
             \<or> noise_distribution cfg = ''exponential_MoG'')
      \<longrightarrow> construct prior cfg = Inl AssertionError)
   \<and> (opt cfg \<noteq> ''adam'' \<and> opt cfg \<noteq> ''momentum'' \<and> opt cfg \<noteq> ''sgd''
      \<longrightarrow> (\<exists>e. construct prior cfg = Inl e))"
proof -
  let ?np = "num_params (weight_shapes (n_hiddens cfg) (n_units cfg) (n_inputs cfg) (n_classes cfg))"
  let ?hn = "get_hyper_net (flow cfg) (coupling cfg) (noise_distribution cfg) ?np"
  have fl: "construct prior cfg = Inl AssertionError"
    if "flow cfg \<noteq> ''RealNVP'' \<and> flow cfg \<noteq> ''IAF''"
    using that by (simp add: construct_def Let_def and_then_def get_hyper_net_unsupported)
  have ot: "\<exists>e. construct prior cfg = Inl e"
    if "output_type cfg \<noteq> ''categorical'' \<and> output_type cfg \<noteq> ''real''"
    using that
    by (cases ?hn) (simp_all add: construct_def Let_def and_then_def get_primary_net_unsupported)
  have ot': "construct prior cfg = Inl AssertionError"
    if "output_type cfg \<noteq> ''categorical'' \<and> output_type cfg \<noteq> ''real''
        \<and> (flow cfg = ''RealNVP'' \<or> flow cfg = ''IAF'')
        \<and> (noise_distribution cfg = ''spherical_gaussian''
             \<or> noise_distribution cfg = ''exponential_MoG'')"
  proof -
    from that get_hyper_net_ok [of "flow cfg" "noise_distribution cfg" "coupling cfg" ?np]
    obtain hn where "?hn = Inr hn" by blast
    with that show ?thesis
      by (simp add: construct_def Let_def and_then_def get_primary_net_unsupported)
  qed
  have op: "\<exists>e. construct prior cfg = Inl e"
    if "opt cfg \<noteq> ''adam'' \<and> opt cfg \<noteq> ''momentum'' \<and> opt cfg \<noteq> ''sgd''"
    using that
    by (auto simp: construct_def Let_def and_then_def get_train_func_unsupported
             split: sum.splits)
  from fl ot ot' op show ?thesis by blast
qed

text \<open>
  The theorem at the default configuration with the flow kind \<^verbatim>\<open>'MAF'\<close>, with the output
  type \<^verbatim>\<open>'ordinal'\<close>, and with the optimizer \<^verbatim>\<open>'rmsprop'\<close>.
\<close>

theorem unsupported_config_fails_witness:
  "flow (default_config\<lparr>flow := ''MAF''\<rparr>) \<noteq> ''RealNVP''
   \<and> flow (default_config\<lparr>flow := ''MAF''\<rparr>) \<noteq> ''IAF''
   \<and> construct identity_prior (default_config\<lparr>flow := ''MAF''\<rparr>) = Inl AssertionError
   \<and> output_type (default_config\<lparr>output_type := ''ordinal''\<rparr>) \<noteq> ''categorical''
   \<and> output_type (default_config\<lparr>output_type := ''ordinal''\<rparr>) \<noteq> ''real''
   \<and> construct identity_prior (default_config\<lparr>output_type := ''ordinal''\<rparr>) = Inl AssertionError
   \<and> opt (default_config\<lparr>opt := ''rmsprop''\<rparr>) \<noteq> ''adam''
   \<and> opt (default_config\<lparr>opt := ''rmsprop''\<rparr>) \<noteq> ''momentum''
   \<and> opt (default_config\<lparr>opt := ''rmsprop''\<rparr>) \<noteq> ''sgd''
   \<and> (\<exists>e. construct identity_prior (default_config\<lparr>opt := ''rmsprop''\<rparr>) = Inl e)"
proof -
  have a: "flow (default_config\<lparr>flow := ''MAF''\<rparr>) \<noteq> ''RealNVP''
           \<and> flow (default_config\<lparr>flow := ''MAF''\<rparr>) \<noteq> ''IAF''"
    by simp
  have b: "output_type (default_config\<lparr>output_type := ''ordinal''\<rparr>) \<noteq> ''categorical''
           \<and> output_type (default_config\<lparr>output_type := ''ordinal''\<rparr>) \<noteq> ''real''
           \<and> (flow (default_config\<lparr>output_type := ''ordinal''\<rparr>) = ''RealNVP''
                \<or> flow (default_config\<lparr>output_type := ''ordinal''\<rparr>) = ''IAF'')
           \<and> (noise_distribution (default_config\<lparr>output_type := ''ordinal''\<rparr>) = ''spherical_gaussian''
                \<or> noise_distribution (default_config\<lparr>output_type := ''ordinal''\<rparr>) = ''exponential_MoG'')"
    by (simp add: default_config_def)
  have c: "opt (default_config\<lparr>opt := ''rmsprop''\<rparr>) \<noteq> ''adam''
           \<and> opt (default_config\<lparr>opt := ''rmsprop''\<rparr>) \<noteq> ''momentum''
           \<and> opt (default_config\<lparr>opt := ''rmsprop''\<rparr>) \<noteq> ''sgd''"
    by simp
  from a unsupported_config_fails [of "default_config\<lparr>flow := ''MAF''\<rparr>" identity_prior]
  have a': "construct identity_prior (default_config\<lparr>flow := ''MAF''\<rparr>) = Inl AssertionError"
    by blast
  from b unsupported_config_fails [of "default_config\<lparr>output_type := ''ordinal''\<rparr>" identity_prior]
  have b': "construct identity_prior (default_config\<lparr>output_type := ''ordinal''\<rparr>)
              = Inl AssertionError"
    by blast
  from c unsupported_config_fails [of "default_config\<lparr>opt := ''rmsprop''\<rparr>" identity_prior]
  have c': "\<exists>e. construct identity_prior (default_config\<lparr>opt := ''rmsprop''\<rparr>) = Inl e"
    by blast
  from a a' b b' c c' show ?thesis by blast
qed

section \<open>Properties of the gradient clipping\<close>

lemma sum_squares_scaled:
  "sum_list (map (\<lambda>x. x\<^sup>2) (map (\<lambda>step. step * m) g)) = m\<^sup>2 * sum_list (map (\<lambda>x. x\<^sup>2) g)"
  for m :: real
  by (induction g) (simp_all add: power_mult_distrib distrib_left mult.commute)

lemma sum_squares_nonneg: "0 \<le> sum_list (map (\<lambda>x. x\<^sup>2) g)"
  for g :: "real list"
  by (induction g) simp_all

lemma global_norm_nonneg: "0 \<le> global_norm gs"
  by (auto simp: global_norm_def intro!: sum_list_nonneg sum_squares_nonneg)

text \<open>Multiplying every gradient by \<open>m\<close> multiplies the global norm by \<open>\<bar>m\<bar>\<close>.\<close>

lemma global_norm_scaled:
  "global_norm (map (map (\<lambda>step. step * m)) gs) = \<bar>m\<bar> * global_norm gs"
proof -
  have "sum_list (map (\<lambda>g. sum_list (map (\<lambda>x. x\<^sup>2) g)) (map (map (\<lambda>step. step * m)) gs))
          = m\<^sup>2 * sum_list (map (\<lambda>g. sum_list (map (\<lambda>x. x\<^sup>2) g)) gs)"
  proof (induction gs)
    case Nil
    then show ?case by simp
  next
    case (Cons g gs)
    have "sum_list (map (\<lambda>x. x\<^sup>2) (map (\<lambda>step. step * m) g)) = m\<^sup>2 * sum_list (map (\<lambda>x. x\<^sup>2) g)"
      by (rule sum_squares_scaled)
    with Cons show ?case by (simp add: distrib_left o_def)
  qed
  then show ?thesis
    by (simp add: global_norm_def real_sqrt_mult)
qed

text \<open>The norm constraint leaves a global norm of at most the bound.\<close>

lemma total_norm_constraint_bound:
  assumes "0 \<le> mx"
  shows "global_norm (total_norm_constraint gs mx) \<le> mx"
proof -
  define n where "n = global_norm gs"
  define c where "c = clip n 0 mx"
  have n0: "0 \<le> n" by (simp add: n_def global_norm_nonneg)
  have c0: "0 \<le> c" and cm: "c \<le> mx"
    using clip_bounds [OF assms, of n] by (simp_all add: c_def)
  have pos: "0 < 1 / 10 ^ 7 + n" using n0 by (simp add: add_pos_nonneg)
  have "total_norm_constraint gs mx = map (map (\<lambda>step. step * (c / (1 / 10 ^ 7 + n)))) gs"
    by (simp add: total_norm_constraint_def Let_def n_def c_def)
  then have "global_norm (total_norm_constraint gs mx) = \<bar>c / (1 / 10 ^ 7 + n)\<bar> * n"
    by (simp only: global_norm_scaled n_def)
  also have "\<dots> = c * (n / (1 / 10 ^ 7 + n))"
    using c0 pos by (simp add: abs_of_nonneg)
  also have "\<dots> \<le> c * 1"
    using c0 pos n0 by (intro mult_left_mono) simp_all
  finally show ?thesis using cm by simp
qed

text \<open>
  C9. In \<^verbatim>\<open>Base_BHN._get_grads\<close>, for each of the three optimizers, the gradients handed to the
  update rule are the gradients of the loss after two steps in this order: first all of
  them are multiplied by one common factor, after which their global L2 norm is at most
  \<open>max_norm = 10\<close>; then every element is clipped to \<open>[-5, 5]\<close> (\<open>clip_grad = 5\<close>).
\<close>

theorem gradients_norm_then_clip:
  assumes "nm = ''adam'' \<or> nm = ''momentum'' \<or> nm = ''sgd''"
  shows "\<exists>u. get_grads nm = Some u
           \<and> rule_grads u grads =
               map (map (\<lambda>g. clip g (- 5) 5)) (total_norm_constraint grads 10)
           \<and> (\<exists>m. total_norm_constraint grads 10 = map (map (\<lambda>step. step * m)) grads)
           \<and> global_norm (total_norm_constraint grads 10) \<le> 10
           \<and> (\<forall>g \<in> set (rule_grads u grads). \<forall>x \<in> set g. - 5 \<le> x \<and> x \<le> 5)"
proof -
  let ?cg = "\<lambda>grads. map (map (\<lambda>g. clip g (- 5) 5)) (total_norm_constraint grads 10)"
  from assms obtain u where u: "get_grads nm = Some u" and r: "rule_grads u = ?cg"
    by (auto simp: get_grads_def Let_def max_norm_def clip_grad_def)
  have 1: "\<exists>m. total_norm_constraint grads 10 = map (map (\<lambda>step. step * m)) grads"
    by (rule exI [of _ "clip (global_norm grads) 0 10 / (1 / 10 ^ 7 + global_norm grads)"])
       (simp add: total_norm_constraint_def Let_def)
  have 2: "global_norm (total_norm_constraint grads 10) \<le> 10"
    by (rule total_norm_constraint_bound) simp
  have 3: "\<forall>g \<in> set (rule_grads u grads). \<forall>x \<in> set g. - 5 \<le> x \<and> x \<le> 5"
    using clip_bounds [of "- 5" 5] by (auto simp: r)
  from u r 1 2 3 show ?thesis by simp
qed

text \<open>
  The theorem at the optimizer \<^verbatim>\<open>'adam'\<close> and the single gradient \<open>(30, 40)\<close> of norm 50: it is
  scaled to a norm below 10, its elements to just below 6 and 8, and both are then
  clipped to 5.
\<close>

theorem gradients_norm_then_clip_witness:
  "(''adam'' = ''adam'' \<or> ''adam'' = ''momentum'' \<or> ''adam'' = ''sgd'')
   \<and> global_norm [[30, 40]] = 50
   \<and> global_norm (total_norm_constraint [[30, 40]] 10) \<le> 10
   \<and> (\<exists>u. get_grads ''adam'' = Some u \<and> rule_grads u [[30, 40]] = [[5, 5]])"
proof -
  have h: "''adam'' = ''adam'' \<or> ''adam'' = ''momentum'' \<or> ''adam'' = ''sgd''" by simp
  have "sqrt 2500 = 50" by (rule real_sqrt_unique) simp_all
  then have n: "global_norm [[30, 40]] = 50"
    by (simp add: global_norm_def)
  from gradients_norm_then_clip [OF h, of "[[30, 40]]"] obtain u where
    u: "get_grads ''adam'' = Some u"
    and r: "rule_grads u [[30, 40]] =
              map (map (\<lambda>g. clip g (- 5) 5)) (total_norm_constraint [[30, 40]] 10)"
    and b: "global_norm (total_norm_constraint [[30, 40]] 10) \<le> 10"
    by blast
  have "total_norm_constraint [[30, 40]] 10
          = [[30 * (10 / (1 / 10 ^ 7 + 50)), 40 * (10 / (1 / 10 ^ 7 + 50))]]"
    by (simp add: total_norm_constraint_def Let_def n clip_def)
  with r have "rule_grads u [[30, 40]] = [[5, 5]]"
    by (simp add: clip_def)
  with h n b u show ?thesis by blast
qed

section \<open>Properties of the loss\<close>

lemma sum_list_uminus: "sum_list (map uminus xs) = - sum_list xs"
  for xs :: "real list"
  by (induction xs) simp_all

lemma mean_uminus: "mean (map uminus xs) = and_then (mean xs) (\<lambda>m. Inr (- m))"
  by (simp add: mean_def and_then_def sum_list_uminus)

lemma map2_uminus_left:
  "map2 (\<lambda>a b. a - b) (map uminus ld) lp = map2 (\<lambda>d p. - d - p) ld lp"
  for ld lp :: "real list"
proof (induction ld arbitrary: lp)
  case Nil
  then show ?case by simp
next
  case (Cons d ld)
  then show ?case by (cases lp) simp_all
qed

text \<open>\<^verbatim>\<open>logpyx\<close> is the mean of the log-likelihood terms.\<close>

lemma logpyx_categorical_loglik:
  "logpyx_categorical inp = and_then (loglik ''categorical'' (in_y inp) (in_target_var inp)) mean"
  by (cases "cc (in_y inp) (in_target_var inp)")
     (simp_all add: logpyx_categorical_def loglik_def and_then_def mean_uminus)

lemma logpyx_real_loglik:
  "logpyx_real inp = and_then (loglik ''real'' (in_y inp) (in_target_var inp)) mean"
proof (cases "se (in_y inp) (in_target_var inp)")
  case (Inl e)
  then show ?thesis by (simp add: logpyx_real_def loglik_def and_then_def)
next
  case (Inr c)
  have "mean (map uminus (concat c)) = and_then (mean (concat c)) (\<lambda>m. Inr (- m))"
    by (rule mean_uminus)
  with Inr show ?thesis
    by (simp add: logpyx_real_def loglik_def and_then_def del: map_concat)
qed

text \<open>The KL term when it is a number: the mean of \<open>- logdet - logprior\<close> over the rows.\<close>

lemma kl_value:
  assumes "0 < lb"
    and "length (logprior prior lb (in_weights inp)) = length (in_logdets inp)"
    and "in_logdets inp \<noteq> []"
  shows "kl prior lb inp =
           Inr (sum_list (map2 (\<lambda>d p. - d - p) (in_logdets inp)
                            (logprior prior lb (in_weights inp)))
                / real (length (in_logdets inp)))"
proof -
  let ?ld = "in_logdets inp"
  let ?lp = "logprior prior lb (in_weights inp)"
  from assms(1) have l: "log_t lb = Inr (ln lb)" by (simp add: log_t_def)
  from assms(2) have e: "elemwise (\<lambda>a b. a - b) (map uminus ?ld) ?lp
                           = Inr (map2 (\<lambda>d p. - d - p) ?ld ?lp)"
    by (simp add: elemwise_def map2_uminus_left)
  from assms(2,3) have "?lp \<noteq> []" by auto
  with assms(2,3) have m: "mean (map2 (\<lambda>d p. - d - p) ?ld ?lp)
                             = Inr (sum_list (map2 (\<lambda>d p. - d - p) ?ld ?lp) / real (length ?ld))"
    by (simp add: mean_def)
  show ?thesis
    unfolding kl_def Let_def l and_then_def
    using e m by (simp add: logprior_def and_then_def)
qed

lemma kl_in_y_update: "kl prior lb (inp\<lparr>in_y := z\<rparr>) = kl prior lb inp"
  by (simp add: kl_def)

text \<open>
  C1, as stated, fails: the claim is that the loss is
  \<open>-(mean loglik - w * mean (logdet - logprior) / N)\<close>. Take one row of noise with
  log-determinant 2 and log-prior 3, one prediction that equals its target (a
  log-likelihood of 0) and \<open>w = N = 1\<close>: the code returns \<open>-5\<close>, the formula of the claim \<open>-1\<close>.
  The code enters the log-determinant with the opposite sign, \<^verbatim>\<open>logqw = - logdets\<close>.
\<close>

theorem elbo_loss_logdet_sign:
  "get_elbo ''real'' identity_prior 1 = Inr (loss logpyx_real (kl identity_prior 1))
   \<and> loss logpyx_real (kl identity_prior 1)
        \<lparr>in_logdets = [2], in_weights = [[3]], in_y = [[1]], in_target_var = [[1]],
         in_weight = 1, in_dataset_size = 1\<rparr> = Inr (- 5)
   \<and> loglik ''real'' [[1]] [[1]] = Inr [0]
   \<and> logprior identity_prior 1 [[3]] = [3]
   \<and> spec_loss [0] [2] [3] 1 1 = - 1"
  by (simp add: get_elbo_def loss_def logpyx_real_def kl_def se_def same_shape_def mean_def
        log_t_def elemwise_def fdiv_def and_then_def identity_prior_def loglik_def logprior_def
        spec_loss_def)

text \<open>
  C1, amended. For every \<^verbatim>\<open>Base_BHN\<close> model with a supported output type, every input batch,
  target batch, dataset size \<open>N\<close> and weight coefficient \<open>w\<close>, the loss built in \<^verbatim>\<open>_get_elbo\<close> is
  \<open>-(mean loglik - w * mean (- logdet - logprior) / N)\<close>, where \<open>logdet\<close> is the flow's total
  per-row log-determinant, \<open>logprior\<close> the per-row log-prior density of the sampled weights
  and \<open>loglik\<close> the data log-likelihood terms. The value is a number whenever the means
  and the division are: the batch and the rows of noise are not empty, \<open>lbda\<close> is positive,
  and \<open>N\<close> is not 0.
\<close>

theorem elbo_loss_formula:
  assumes "ot = ''categorical'' \<or> ot = ''real''"
    and "loglik ot (in_y inp) (in_target_var inp) = Inr ll" and "ll \<noteq> []"
    and "0 < lb"
    and "length (logprior prior lb (in_weights inp)) = length (in_logdets inp)"
    and "in_logdets inp \<noteq> []"
    and "in_dataset_size inp \<noteq> 0"
  shows "\<exists>f. get_elbo ot prior lb = Inr f
           \<and> f inp = Inr (code_loss ll (in_logdets inp) (logprior prior lb (in_weights inp))
                            (in_weight inp) (in_dataset_size inp))"
proof -
  have k: "kl prior lb inp =
           Inr (sum_list (map2 (\<lambda>d p. - d - p) (in_logdets inp)
                            (logprior prior lb (in_weights inp)))
                / real (length (in_logdets inp)))"
    using assms(4,5,6) by (rule kl_value)
  have m: "mean ll = Inr (sum_list ll / real (length ll))"
    using assms(3) by (simp add: mean_def)
  from assms(1) show ?thesis
  proof
    assume ot: "ot = ''categorical''"
    have "logpyx_categorical inp = Inr (sum_list ll / real (length ll))"
      using assms(2) m by (simp add: logpyx_categorical_loglik ot and_then_def)
    then have "loss logpyx_categorical (kl prior lb) inp
                = Inr (code_loss ll (in_logdets inp) (logprior prior lb (in_weights inp))
                            (in_weight inp) (in_dataset_size inp))"
      using k assms(7) by (simp add: loss_def and_then_def fdiv_def code_loss_def)
    then show ?thesis by (simp add: get_elbo_def ot)
  next
    assume ot: "ot = ''real''"
    have "logpyx_real inp = Inr (sum_list ll / real (length ll))"
      using assms(2) m by (simp add: logpyx_real_loglik ot and_then_def)
    then have "loss logpyx_real (kl prior lb) inp
                = Inr (code_loss ll (in_logdets inp) (logprior prior lb (in_weights inp))
                            (in_weight inp) (in_dataset_size inp))"
      using k assms(7) by (simp add: loss_def and_then_def fdiv_def code_loss_def)
    then show ?thesis by (simp add: get_elbo_def ot)
  qed
qed

text \<open>
  The theorem at a real-valued output: one prediction 1 for the target 3, one row of
  noise with log-determinant 2 and log-prior 3, \<open>w = 1\<close> and \<open>N = 10\<close>. The loss is
  \<open>-(-4 - (-5) / 10) = 7/2\<close>.
\<close>

theorem elbo_loss_formula_witness:
  "(''real'' = ''categorical'' \<or> ''real'' = ''real'')
   \<and> loglik ''real'' [[1]] [[3]] = Inr [- 4]
   \<and> [- 4 :: real] \<noteq> []
   \<and> (0 :: real) < 1
   \<and> length (logprior identity_prior 1 [[3]]) = length [2 :: real]
   \<and> [2 :: real] \<noteq> []
   \<and> (10 :: real) \<noteq> 0
   \<and> (\<exists>f. get_elbo ''real'' identity_prior 1 = Inr f
          \<and> f \<lparr>in_logdets = [2], in_weights = [[3]], in_y = [[1]], in_target_var = [[3]],
                in_weight = 1, in_dataset_size = 10\<rparr> = Inr (7 / 2))"
proof -
  let ?inp = "\<lparr>in_logdets = [2], in_weights = [[3]], in_y = [[1]], in_target_var = [[3]],
                in_weight = 1, in_dataset_size = 10\<rparr>"
  have a: "''real'' = ''categorical'' \<or> ''real'' = ''real''" by simp
  have b: "loglik ''real'' (in_y ?inp) (in_target_var ?inp) = Inr [- 4]"
    by (simp add: loglik_def se_def same_shape_def and_then_def)
  have c: "[- 4 :: real] \<noteq> []" by simp
  have d: "(0 :: real) < 1" by simp
  have e: "length (logprior identity_prior 1 (in_weights ?inp)) = length (in_logdets ?inp)"
    by (simp add: logprior_def identity_prior_def)
  have f: "in_logdets ?inp \<noteq> []" by simp
  have g: "in_dataset_size ?inp \<noteq> 0" by simp
  have v: "code_loss [- 4] (in_logdets ?inp) (logprior identity_prior 1 (in_weights ?inp))
             (in_weight ?inp) (in_dataset_size ?inp) = 7 / 2"
    by (simp add: code_loss_def logprior_def identity_prior_def)
  from elbo_loss_formula [OF a b c d e f g] obtain fn where
    "get_elbo ''real'' identity_prior 1 = Inr fn"
    "fn ?inp = Inr (code_loss [- 4] (in_logdets ?inp)
                      (logprior identity_prior 1 (in_weights ?inp))
                      (in_weight ?inp) (in_dataset_size ?inp))"
    by blast
  then have "\<exists>f. get_elbo ''real'' identity_prior 1 = Inr f \<and> f ?inp = Inr (7 / 2)"
    by (auto simp only: v)
  with a b c d e f g show ?thesis by simp
qed

text \<open>With a weight of 0, a dataset size other than 0 and a KL term that is a number, the loss is the negated \<^verbatim>\<open>logpyx\<close>.\<close>

lemma loss_weight_zero:
  assumes "in_weight inp = 0" and "in_dataset_size inp \<noteq> 0" and "kl_term inp = Inr k"
  shows "loss logpyx kl_term inp = and_then (logpyx inp) (\<lambda>l. Inr (- l))"
  using assms by (cases "logpyx inp") (simp_all add: loss_def and_then_def fdiv_def)

lemma neg_logpyx_categorical:
  "and_then (logpyx_categorical inp) (\<lambda>l. Inr (- l))
     = and_then (cc (in_y inp) (in_target_var inp)) mean"
proof (cases "cc (in_y inp) (in_target_var inp)")
  case (Inl e)
  then show ?thesis by (simp add: logpyx_categorical_def and_then_def)
next
  case (Inr c)
  then show ?thesis
    by (cases "mean c") (simp_all add: logpyx_categorical_def and_then_def)
qed

lemma and_then_assoc:
  "and_then (and_then r f) g = and_then r (\<lambda>x. and_then (f x) g)"
  by (cases r) (simp_all add: and_then_def)

text \<open>
  C5, as stated, fails: the claim is for any dataset size. With \<open>w = 0\<close> and a dataset size
  of 0 the loss divides \<open>0 * kl\<close> by 0 and is not a number, while the mean cross-entropy of
  the prediction \<open>(1/2, 1/2)\<close> against the target \<open>(1, 0)\<close> is \<open>- ln (1/2)\<close>.
\<close>

theorem loss_weight_zero_dataset_size_zero:
  "get_elbo ''categorical'' identity_prior 1
     = Inr (loss logpyx_categorical (kl identity_prior 1))
   \<and> loss logpyx_categorical (kl identity_prior 1)
        \<lparr>in_logdets = [2], in_weights = [[3]], in_y = [[1 / 2, 1 / 2]],
         in_target_var = [[1, 0]], in_weight = 0, in_dataset_size = 0\<rparr> = Inl NotANumber
   \<and> and_then (cc [[1 / 2, 1 / 2]] [[1, 0]]) mean = Inr (- ln (1 / 2))"
  by (simp add: get_elbo_def loss_def logpyx_categorical_def kl_def cc_def same_shape_def mean_def
        log_t_def elemwise_def fdiv_def and_then_def identity_prior_def)

text \<open>
  C5, amended. For a weight coefficient \<open>w = 0\<close>, any inputs and targets, a dataset size other
  than 0 and a KL term that is a number, the loss of a \<^verbatim>\<open>Base_BHN\<close> model is exactly the negated
  mean of the data log-likelihood terms; for a categorical output it is the mean
  categorical cross-entropy of \<^verbatim>\<open>self.y\<close> against the targets, and with the \<^verbatim>\<open>self.y\<close> that
  \<^verbatim>\<open>_get_primary_net\<close> builds, of the predictions clipped to \<open>[0.001, 0.999]\<close>. The prior and
  the log-determinant contribute nothing.
\<close>

theorem loss_weight_zero_is_neg_loglik:
  assumes "ot = ''categorical'' \<or> ot = ''real''"
    and "in_weight inp = 0" and "in_dataset_size inp \<noteq> 0" and "kl prior lb inp = Inr k"
  shows "\<exists>f. get_elbo ot prior lb = Inr f
           \<and> f inp = and_then (loglik ot (in_y inp) (in_target_var inp))
                        (\<lambda>ll. and_then (mean ll) (\<lambda>m. Inr (- m)))
           \<and> (ot = ''categorical'' \<longrightarrow>
                f inp = and_then (cc (in_y inp) (in_target_var inp)) mean
                \<and> (\<forall>wss pn out. get_primary_net ot wss = Inr pn \<longrightarrow>
                      f (inp\<lparr>in_y := self_y pn out\<rparr>) =
                        and_then (cc (map (map (\<lambda>p. clip p 0.001 0.999)) out) (in_target_var inp))
                          mean))"
proof -
  from assms(1) show ?thesis
  proof
    assume ot: "ot = ''categorical''"
    let ?f = "loss logpyx_categorical (kl prior lb)"
    have f: "get_elbo ot prior lb = Inr ?f" by (simp add: get_elbo_def ot)
    have general: "?f i = and_then (cc (in_y i) (in_target_var i)) mean"
      if "in_weight i = 0" "in_dataset_size i \<noteq> 0" "kl prior lb i = Inr k" for i
      using loss_weight_zero [where kl_term = "kl prior lb" and logpyx = logpyx_categorical, OF that]
      by (simp add: neg_logpyx_categorical)
    have 1: "?f inp = and_then (loglik ot (in_y inp) (in_target_var inp))
                        (\<lambda>ll. and_then (mean ll) (\<lambda>m. Inr (- m)))"
      using loss_weight_zero [where kl_term = "kl prior lb" and logpyx = logpyx_categorical,
              OF assms(2,3,4)]
      by (simp add: logpyx_categorical_loglik ot and_then_assoc)
    have 2: "?f inp = and_then (cc (in_y inp) (in_target_var inp)) mean"
      using assms(2,3,4) by (rule general)
    have 3: "?f (inp\<lparr>in_y := self_y pn out\<rparr>) =
               and_then (cc (map (map (\<lambda>p. clip p 0.001 0.999)) out) (in_target_var inp)) mean"
      if "get_primary_net ot wss = Inr pn" for wss pn out
    proof -
      from that have "self_y pn out = map (map (\<lambda>p. clip p 0.001 0.999)) out"
        by (auto simp: get_primary_net_def Let_def ot)
      moreover have "?f (inp\<lparr>in_y := self_y pn out\<rparr>)
                       = and_then (cc (in_y (inp\<lparr>in_y := self_y pn out\<rparr>))
                                      (in_target_var (inp\<lparr>in_y := self_y pn out\<rparr>))) mean"
        using assms(2,3,4) by (intro general) (simp_all add: kl_in_y_update)
      ultimately show ?thesis by simp
    qed
    from f 1 2 3 show ?thesis by blast
  next
    assume ot: "ot = ''real''"
    let ?f = "loss logpyx_real (kl prior lb)"
    have f: "get_elbo ot prior lb = Inr ?f" by (simp add: get_elbo_def ot)
    have 1: "?f inp = and_then (loglik ot (in_y inp) (in_target_var inp))
                        (\<lambda>ll. and_then (mean ll) (\<lambda>m. Inr (- m)))"
      using loss_weight_zero [where kl_term = "kl prior lb" and logpyx = logpyx_real,
              OF assms(2,3,4)]
      by (simp add: logpyx_real_loglik ot and_then_assoc)
    from f 1 show ?thesis by (simp add: ot)
  qed
qed

text \<open>
  The theorem at a categorical output: the primary net's output \<open>(1/2, 1/2)\<close> for the target
  \<open>(0, 1)\<close>, one row of noise, \<open>w = 0\<close> and \<open>N = 10\<close>. The loss is the cross-entropy
  \<open>- ln (1/2)\<close>.
\<close>

theorem loss_weight_zero_is_neg_loglik_witness:
  "(''categorical'' = ''categorical'' \<or> ''categorical'' = ''real'')
   \<and> (10 :: real) \<noteq> 0
   \<and> kl identity_prior 1
        \<lparr>in_logdets = [2], in_weights = [[3]], in_y = [[1 / 2, 1 / 2]],
         in_target_var = [[0, 1]], in_weight = 0, in_dataset_size = 10\<rparr> = Inr (- 5)
   \<and> (\<exists>f. get_elbo ''categorical'' identity_prior 1 = Inr f
          \<and> f \<lparr>in_logdets = [2], in_weights = [[3]], in_y = [[1 / 2, 1 / 2]],
                in_target_var = [[0, 1]], in_weight = 0, in_dataset_size = 10\<rparr>
              = Inr (- ln (1 / 2)))"
proof -
  let ?inp = "\<lparr>in_logdets = [2], in_weights = [[3]], in_y = [[1 / 2, 1 / 2]],
                in_target_var = [[0, 1]], in_weight = 0, in_dataset_size = 10\<rparr>"
  have a: "''categorical'' = ''categorical'' \<or> ''categorical'' = ''real''" by simp
  have b: "in_weight ?inp = 0" by simp
  have c: "in_dataset_size ?inp \<noteq> 0" by simp
  have d: "kl identity_prior 1 ?inp = Inr (- 5)"
    by (simp add: kl_def log_t_def elemwise_def mean_def and_then_def identity_prior_def)
  have v: "and_then (cc (in_y ?inp) (in_target_var ?inp)) mean = Inr (- ln (1 / 2))"
    by (simp add: cc_def same_shape_def mean_def and_then_def)
  from loss_weight_zero_is_neg_loglik [OF a b c d] obtain f where
    "get_elbo ''categorical'' identity_prior 1 = Inr f"
    "f ?inp = and_then (cc (in_y ?inp) (in_target_var ?inp)) mean"
    by blast
  then have "\<exists>f. get_elbo ''categorical'' identity_prior 1 = Inr f \<and> f ?inp = Inr (- ln (1 / 2))"
    by (auto simp only: v)
  with a c d show ?thesis by simp
qed

end
